theory Spec2Isabelle
  imports Complex_Main
begin

section \<open>Windowed multipole cross sections (scripts/WMP.py)\<close>

text \<open>
  A shallow embedding of \<^verbatim>\<open>scripts/WMP.py\<close>. Python floats and NumPy float64 values
  are modelled as the real numbers and complex128 values as the complex numbers, with
  exact arithmetic: rounding, overflow, infinities, NaN and signed zeros are outside the
  model. Every \<^verbatim>\<open>raise\<close> of the source, and every exception of the Python and NumPy
  operations it calls, is a value \<open>Inl e\<close> of the result type.
\<close>

subsection \<open>Exceptions\<close>

datatype error =
    TypeError | ValueError | IndexError | ZeroDivisionError | OverflowError
  | KeyError | OSError | AttributeError

definition and_then :: "error + 'a \<Rightarrow> ('a \<Rightarrow> error + 'b) \<Rightarrow> error + 'b" where
  "and_then m f = (case m of Inl e \<Rightarrow> Inl e | Inr v \<Rightarrow> f v)"

text \<open>A \<^verbatim>\<open>for\<close> loop over a sequence: the body updates the loop state or raises.\<close>

fun for_loop :: "'i list \<Rightarrow> ('i \<Rightarrow> 's \<Rightarrow> error + 's) \<Rightarrow> 's \<Rightarrow> error + 's" where
  "for_loop [] body s = Inr s"
| "for_loop (i # is) body s = and_then (body i s) (for_loop is body)"

text \<open>\<^verbatim>\<open>range(lo, hi)\<close> for Python integers.\<close>

definition py_range :: "int \<Rightarrow> int \<Rightarrow> int list" where
  "py_range lo hi = [lo..hi - 1]"

subsection \<open>Module constants\<close>

definition WMP_VERSION :: string where
  "WMP_VERSION = ''v1.0''"

definition K_BOLTZMANN :: real where
  "K_BOLTZMANN = 86173303 / 10 ^ 12"

definition MP_EA :: int where "MP_EA = 0"
definition MP_RT :: int where "MP_RT = 1"
definition MP_RA :: int where "MP_RA = 2"
definition MP_RF :: int where "MP_RF = 3"

definition FIT_T :: int where "FIT_T = 0"
definition FIT_A :: int where "FIT_A = 1"
definition FIT_F :: int where "FIT_F = 2"

subsection \<open>Python float operations\<close>

text \<open>\<^verbatim>\<open>math.sqrt\<close> raises ValueError (math domain error) on a negative argument.\<close>

definition math_sqrt :: "real \<Rightarrow> error + real" where
  "math_sqrt x = (if x < 0 then Inl ValueError else Inr (sqrt x))"

text \<open>Division of Python floats raises ZeroDivisionError on a zero divisor.\<close>

definition py_div :: "real \<Rightarrow> real \<Rightarrow> error + real" where
  "py_div x y = (if y = 0 then Inl ZeroDivisionError else Inr (x / y))"

text \<open>
  \<^verbatim>\<open>int(np.floor(x / d))\<close> where \<open>d\<close> is a NumPy float: the division does not raise;
  a zero divisor gives NaN (\<open>0/0\<close>) or an infinity, which \<^verbatim>\<open>int\<close> rejects with
  ValueError and OverflowError.
\<close>

definition int_floor_div :: "real \<Rightarrow> real \<Rightarrow> error + int" where
  "int_floor_div x d =
     (if d = 0 then (if x = 0 then Inl ValueError else Inl OverflowError)
      else Inr \<lfloor>x / d\<rfloor>)"

subsection \<open>NumPy arrays\<close>

text \<open>
  An \<^verbatim>\<open>ndarray\<close> is its shape and its elements in row-major (C) order. An integer
  index \<open>i\<close> along an axis of length \<open>n\<close> is valid for \<open>-n \<le> i < n\<close>, a negative one
  counting from the end; any other index raises IndexError.
\<close>

record 'a ndarray =
  shape :: "nat list"
  elems :: "'a list"

definition np_index :: "nat \<Rightarrow> int \<Rightarrow> error + nat" where
  "np_index n i =
     (if 0 \<le> i \<and> i < int n then Inr (nat i)
      else if - int n \<le> i \<and> i < 0 then Inr (nat (i + int n))
      else Inl IndexError)"

text \<open>\<^verbatim>\<open>a.shape[k]\<close>: indexing the shape tuple.\<close>

definition shape_at :: "'a ndarray \<Rightarrow> nat \<Rightarrow> error + nat" where
  "shape_at a k = (if k < length (shape a) then Inr (shape a ! k) else Inl IndexError)"

text \<open>
  \<^verbatim>\<open>a[i]\<close>, \<^verbatim>\<open>a[i, j]\<close> and \<^verbatim>\<open>a[i, j, k]\<close> are modelled for arrays of exactly that
  rank, which is what the property setters enforce; too many indices raise IndexError.
\<close>

definition get1 :: "'a ndarray \<Rightarrow> int \<Rightarrow> error + 'a" where
  "get1 a i =
     (case shape a of
        [n] \<Rightarrow> and_then (np_index n i) (\<lambda>i'. Inr (elems a ! i'))
      | _ \<Rightarrow> Inl IndexError)"

definition get2 :: "'a ndarray \<Rightarrow> int \<Rightarrow> int \<Rightarrow> error + 'a" where
  "get2 a i j =
     (case shape a of
        [n, m] \<Rightarrow>
          and_then (np_index n i) (\<lambda>i'.
          and_then (np_index m j) (\<lambda>j'.
          Inr (elems a ! (i' * m + j'))))
      | _ \<Rightarrow> Inl IndexError)"

definition get3 :: "'a ndarray \<Rightarrow> int \<Rightarrow> int \<Rightarrow> int \<Rightarrow> error + 'a" where
  "get3 a i j k =
     (case shape a of
        [n, m, p] \<Rightarrow>
          and_then (np_index n i) (\<lambda>i'.
          and_then (np_index m j) (\<lambda>j'.
          and_then (np_index p k) (\<lambda>k'.
          Inr (elems a ! ((i' * m + j') * p + k')))))
      | _ \<Rightarrow> Inl IndexError)"

text \<open>\<^verbatim>\<open>np.zeros(n)\<close> and item assignment on a one-dimensional array held as a list.\<close>

definition np_zeros :: "int \<Rightarrow> error + real list" where
  "np_zeros n = (if n < 0 then Inl ValueError else Inr (replicate (nat n) 0))"

definition set_item :: "real list \<Rightarrow> int \<Rightarrow> real \<Rightarrow> error + real list" where
  "set_item xs i v = and_then (np_index (length xs) i) (\<lambda>i'. Inr (xs[i' := v]))"

definition get_item :: "real list \<Rightarrow> int \<Rightarrow> error + real" where
  "get_item xs i = and_then (np_index (length xs) i) (\<lambda>i'. Inr (xs ! i'))"

text \<open>
  \<^verbatim>\<open>np.angle(z)\<close> is \<^verbatim>\<open>arctan2(z.imag, z.real)\<close>, the angle in \<open>(-\<pi>, \<pi>]\<close> of the
  point \<open>(x, y)\<close>.
\<close>

definition np_arctan2 :: "real \<Rightarrow> real \<Rightarrow> real" where
  "np_arctan2 y x =
     (if 0 < x then arctan (y / x)
      else if x < 0 \<and> 0 \<le> y then arctan (y / x) + pi
      else if x < 0 then arctan (y / x) - pi
      else if 0 < y then pi / 2
      else if y < 0 then - (pi / 2)
      else 0)"

definition np_angle :: "complex \<Rightarrow> real" where
  "np_angle z = np_arctan2 (Im z) (Re z)"

subsection \<open>Special functions of the libraries\<close>

text \<open>
  \<^verbatim>\<open>math.erf\<close> and \<^verbatim>\<open>scipy.special.wofz\<close> are library functions; they are given
  here by their mathematical definitions: the Maclaurin series of the error function,
  and \<open>w(z) = exp(-z\<^sup>2) erfc(-iz)\<close> as the docstring of \<^verbatim>\<open>_faddeeva\<close> states.
\<close>

definition erf_term :: "'a::{real_normed_field, banach} \<Rightarrow> nat \<Rightarrow> 'a" where
  "erf_term z n = (- 1) ^ n * z ^ (2 * n + 1) / of_nat (fact n * (2 * n + 1))"

definition erf :: "'a::{real_normed_field, banach} \<Rightarrow> 'a" where
  "erf z = of_real (2 / sqrt pi) * (\<Sum>n. erf_term z n)"

definition erfc :: "'a::{real_normed_field, banach} \<Rightarrow> 'a" where
  "erfc z = 1 - erf z"

definition wofz :: "complex \<Rightarrow> complex" where
  "wofz z = exp (- (z ^ 2)) * erfc (- (\<i> * z))"

subsection \<open>\<^verbatim>\<open>_faddeeva\<close>\<close>

definition faddeeva :: "complex \<Rightarrow> complex" where
  "faddeeva z = (if np_angle z > 0 then wofz z else - cnj (wofz (cnj z)))"

subsection \<open>\<^verbatim>\<open>_broaden_wmp_polynomials\<close>\<close>

text \<open>The body of the loop \<^verbatim>\<open>for i in range(1, n-2)\<close>, on the array \<^verbatim>\<open>factors\<close>.\<close>

definition broaden_body :: "real \<Rightarrow> real \<Rightarrow> real \<Rightarrow> int \<Rightarrow> real list \<Rightarrow> error + real list" where
  "broaden_body E half_inv_dopp2 quarter_inv_dopp4 i factors =
     (if i \<noteq> 1 then
        and_then (get_item factors (i - 2)) (\<lambda>f_im2.
        and_then (get_item factors i) (\<lambda>f_i.
        set_item factors (i + 2)
          (- f_im2 * (of_int i - 1) * of_int i * quarter_inv_dopp4
           + f_i * (E + (1 + 2 * of_int i) * half_inv_dopp2))))
      else
        and_then (get_item factors i) (\<lambda>f_i.
        set_item factors (i + 2) (f_i * (E + (1 + 2 * of_int i) * half_inv_dopp2))))"

definition broaden_wmp_polynomials :: "real \<Rightarrow> real \<Rightarrow> int \<Rightarrow> error + real list" where
  "broaden_wmp_polynomials E dopp n =
     and_then (math_sqrt E) (\<lambda>sqrtE.
     let beta = sqrtE * dopp in
     and_then (py_div 0.5 (dopp ^ 2)) (\<lambda>half_inv_dopp2.
     let quarter_inv_dopp4 = half_inv_dopp2 ^ 2;
         erf_beta = (if beta > 6 then 1 else erf beta);
         exp_m_beta2 = (if beta > 6 then 0 else exp (- (beta ^ 2)))
     in
     and_then (np_zeros n) (\<lambda>factors.
     and_then (py_div erf_beta E) (\<lambda>f0.
     and_then (set_item factors 0 f0) (\<lambda>factors.
     and_then (py_div 1 sqrtE) (\<lambda>f1.
     and_then (set_item factors 1 f1) (\<lambda>factors.
     and_then (get_item factors 0) (\<lambda>f0.
     and_then (py_div exp_m_beta2 (beta * sqrt pi)) (\<lambda>q.
     and_then (set_item factors 2 (f0 * (half_inv_dopp2 + E) + q)) (\<lambda>factors.
     for_loop (py_range 1 (n - 2))
       (broaden_body E half_inv_dopp2 quarter_inv_dopp4) factors))))))))))"

subsection \<open>The class \<^verbatim>\<open>WindowedMultipole\<close>\<close>

text \<open>
  The attributes of a table after construction. The property setters fix the element
  type of each array (complex, integer, boolean, float), so the fields are typed.
\<close>

record WindowedMultipole =
  spacing :: real
  sqrtAWR :: real
  start_E :: real
  end_E :: real
  data :: "complex ndarray"
  w_start :: "int ndarray"
  w_end :: "int ndarray"
  broaden_poly :: "bool ndarray"
  curvefit :: "real ndarray"

text \<open>The properties \<^verbatim>\<open>fit_order\<close> and \<^verbatim>\<open>fissionable\<close>.\<close>

definition fit_order :: "WindowedMultipole \<Rightarrow> error + int" where
  "fit_order self = and_then (shape_at (curvefit self) 1) (\<lambda>m. Inr (int m - 1))"

definition fissionable :: "WindowedMultipole \<Rightarrow> error + bool" where
  "fissionable self = and_then (shape_at (data self) 1) (\<lambda>m. Inr (m = 4))"

subsection \<open>\<^verbatim>\<open>WindowedMultipole._evaluate\<close>\<close>

type_synonym sigmas = "real \<times> real \<times> real"

text \<open>
  The loop over \<^verbatim>\<open>i_poly\<close> of the broadened curvefit; the state is
  \<^verbatim>\<open>(sig_t, sig_a, sig_f)\<close>.
\<close>

definition broadened_body ::
  "WindowedMultipole \<Rightarrow> int \<Rightarrow> real list \<Rightarrow> int \<Rightarrow> sigmas \<Rightarrow> error + sigmas" where
  "broadened_body self i_window broadened_polynomials i_poly s =
     (case s of (sig_t, sig_a, sig_f) \<Rightarrow>
        and_then (get3 (curvefit self) i_window i_poly FIT_T) (\<lambda>c_t.
        and_then (get_item broadened_polynomials i_poly) (\<lambda>b_t.
        let sig_t = sig_t + c_t * b_t in
        and_then (get3 (curvefit self) i_window i_poly FIT_A) (\<lambda>c_a.
        and_then (get_item broadened_polynomials i_poly) (\<lambda>b_a.
        let sig_a = sig_a + c_a * b_a in
        and_then (fissionable self) (\<lambda>fis.
        if fis then
          and_then (get3 (curvefit self) i_window i_poly FIT_F) (\<lambda>c_f.
          and_then (get_item broadened_polynomials i_poly) (\<lambda>b_f.
          Inr (sig_t, sig_a, sig_f + c_f * b_f)))
        else Inr (sig_t, sig_a, sig_f)))))))"

text \<open>
  The loop over \<^verbatim>\<open>i_poly\<close> of the unbroadened curvefit; the state is
  \<^verbatim>\<open>(sig_t, sig_a, sig_f)\<close> and \<^verbatim>\<open>temp\<close>.
\<close>

definition unbroadened_body ::
  "WindowedMultipole \<Rightarrow> int \<Rightarrow> real \<Rightarrow> int \<Rightarrow> sigmas \<times> real \<Rightarrow> error + sigmas \<times> real" where
  "unbroadened_body self i_window sqrtE i_poly s =
     (case s of ((sig_t, sig_a, sig_f), temp) \<Rightarrow>
        and_then (get3 (curvefit self) i_window i_poly FIT_T) (\<lambda>c_t.
        let sig_t = sig_t + c_t * temp in
        and_then (get3 (curvefit self) i_window i_poly FIT_A) (\<lambda>c_a.
        let sig_a = sig_a + c_a * temp in
        and_then (fissionable self) (\<lambda>fis.
        if fis then
          and_then (get3 (curvefit self) i_window i_poly FIT_F) (\<lambda>c_f.
          Inr ((sig_t, sig_a, sig_f + c_f * temp), temp * sqrtE))
        else Inr ((sig_t, sig_a, sig_f), temp * sqrtE)))))"

text \<open>The section "Add the contribution from the curvefit polynomial".\<close>

definition curvefit_contribution ::
  "WindowedMultipole \<Rightarrow> real \<Rightarrow> real \<Rightarrow> real \<Rightarrow> real \<Rightarrow> int \<Rightarrow> error + sigmas" where
  "curvefit_contribution self E sqrtE invE sqrtkT i_window =
     and_then (if sqrtkT \<noteq> 0 then get1 (broaden_poly self) i_window else Inr False) (\<lambda>broaden.
     if broaden then
       let dopp = sqrtAWR self / sqrtkT in
       and_then (fit_order self) (\<lambda>order.
       and_then (broaden_wmp_polynomials E dopp (order + 1)) (\<lambda>broadened_polynomials.
       for_loop (py_range 0 (order + 1))
         (broadened_body self i_window broadened_polynomials) (0, 0, 0)))
     else
       and_then (fit_order self) (\<lambda>order.
       and_then (for_loop (py_range 0 (order + 1))
                   (unbroadened_body self i_window sqrtE) ((0, 0, 0), invE))
         (\<lambda>(s, temp). Inr s)))"

text \<open>The two loops over \<^verbatim>\<open>i_pole\<close>: the asymptotic form at 0 K, and the Faddeeva form.\<close>

definition pole_body_0K ::
  "WindowedMultipole \<Rightarrow> real \<Rightarrow> real \<Rightarrow> int \<Rightarrow> sigmas \<Rightarrow> error + sigmas" where
  "pole_body_0K self E sqrtE i_pole s =
     (case s of (sig_t, sig_a, sig_f) \<Rightarrow>
        and_then (get2 (data self) i_pole MP_EA) (\<lambda>ea.
        let psi_chi = - \<i> / (ea - of_real sqrtE);
            c_temp = psi_chi / of_real E
        in
        and_then (get2 (data self) i_pole MP_RT) (\<lambda>rt.
        let sig_t = sig_t + Re (rt * c_temp) in
        and_then (get2 (data self) i_pole MP_RA) (\<lambda>ra.
        let sig_a = sig_a + Re (ra * c_temp) in
        and_then (fissionable self) (\<lambda>fis.
        if fis then
          and_then (get2 (data self) i_pole MP_RF) (\<lambda>rf.
          Inr (sig_t, sig_a, sig_f + Re (rf * c_temp)))
        else Inr (sig_t, sig_a, sig_f))))))"

definition pole_body_T ::
  "WindowedMultipole \<Rightarrow> real \<Rightarrow> real \<Rightarrow> real \<Rightarrow> int \<Rightarrow> sigmas \<Rightarrow> error + sigmas" where
  "pole_body_T self sqrtE invE dopp i_pole s =
     (case s of (sig_t, sig_a, sig_f) \<Rightarrow>
        and_then (get2 (data self) i_pole MP_EA) (\<lambda>ea.
        let Z = (of_real sqrtE - ea) * of_real dopp;
            w_val = faddeeva Z * of_real dopp * of_real invE * of_real (sqrt pi)
        in
        and_then (get2 (data self) i_pole MP_RT) (\<lambda>rt.
        let sig_t = sig_t + Re (rt * w_val) in
        and_then (get2 (data self) i_pole MP_RA) (\<lambda>ra.
        let sig_a = sig_a + Re (ra * w_val) in
        and_then (fissionable self) (\<lambda>fis.
        if fis then
          and_then (get2 (data self) i_pole MP_RF) (\<lambda>rf.
          Inr (sig_t, sig_a, sig_f + Re (rf * w_val)))
        else Inr (sig_t, sig_a, sig_f))))))"

text \<open>The section "Add the contribution from the poles in this window".\<close>

definition poles_contribution ::
  "WindowedMultipole \<Rightarrow> real \<Rightarrow> real \<Rightarrow> real \<Rightarrow> real \<Rightarrow> int \<Rightarrow> int \<Rightarrow> sigmas \<Rightarrow> error + sigmas" where
  "poles_contribution self E sqrtE invE sqrtkT startw endw s =
     (if sqrtkT = 0 then
        for_loop (py_range startw endw) (pole_body_0K self E sqrtE) s
      else
        let dopp = sqrtAWR self / sqrtkT in
        for_loop (py_range startw endw) (pole_body_T self sqrtE invE dopp) s)"

text \<open>
  The window index \<^verbatim>\<open>int(np.floor((sqrtE - sqrt(self.start_E)) / self.spacing))\<close>,
  here the floor of the exact quotient. In double precision the square roots and the
  quotient are rounded, and at the top of a window the rounded quotient can reach the next
  integer, so that the source's index is one more than the exact floor. No upper
  bound on the index is drawn from the exact value below: what is proved of the index
  is its sign, and its value at inputs where the rounded and the exact computation
  agree.
\<close>

definition locate_window :: "WindowedMultipole \<Rightarrow> real \<Rightarrow> error + int" where
  "locate_window self sqrtE =
     and_then (math_sqrt (start_E self)) (\<lambda>sqrt_start.
     int_floor_div (sqrtE - sqrt_start) (spacing self))"

definition evaluate :: "WindowedMultipole \<Rightarrow> real \<Rightarrow> real \<Rightarrow> error + sigmas" where
  "evaluate self E T =
     (if E < start_E self then Inr (0, 0, 0)
      else if E > end_E self then Inr (0, 0, 0)
      else
        and_then (math_sqrt (K_BOLTZMANN * T)) (\<lambda>sqrtkT.
        and_then (math_sqrt E) (\<lambda>sqrtE.
        and_then (py_div 1 E) (\<lambda>invE.
        and_then (locate_window self sqrtE) (\<lambda>i_window.
        and_then (get1 (w_start self) i_window) (\<lambda>ws.
        let startw = ws - 1 in
        and_then (get1 (w_end self) i_window) (\<lambda>endw.
        and_then (curvefit_contribution self E sqrtE invE sqrtkT i_window) (\<lambda>s.
        poles_contribution self E sqrtE invE sqrtkT startw endw s))))))))"

subsection \<open>Serialized tables\<close>

text \<open>
  What \<^verbatim>\<open>h5py\<close> hands to \<^verbatim>\<open>from_hdf5\<close>. The \<^verbatim>\<open>.value\<close> of a dataset of the
  nuclide group is a NumPy scalar or an array, whose dtype is boolean, signed integer,
  float or complex. A group is a dictionary from names to datasets; a file holds the
  dataset \<^verbatim>\<open>version\<close> and the group \<^verbatim>\<open>nuclide\<close>, either of which may be absent.
  The version dataset is a byte string, a one-dimensional array of byte strings (as
  \<^verbatim>\<open>export_to_hdf5\<close> writes it), a number or a one-dimensional array of numbers;
  byte strings are ASCII, so that \<^verbatim>\<open>decode\<close> is the identity.
\<close>

datatype elements =
    Bools "bool list" | Ints "int list" | Floats "real list" | Complexes "complex list"

datatype h5value =
    H5Bool bool | H5Int int | H5Float real | H5Array "nat list" elements

type_synonym h5group = "string \<rightharpoonup> h5value"

datatype version_value =
    VBytes string | VBytesArray "string list" | VNumber | VNumberArray nat

record h5file =
  version :: "version_value option"
  nuclide :: "h5group option"

datatype group_or_filename = Group h5group | Filename string

definition h5_get :: "('k \<rightharpoonup> 'v) \<Rightarrow> 'k \<Rightarrow> error + 'v" where
  "h5_get g k = (case g k of None \<Rightarrow> Inl KeyError | Some v \<Rightarrow> Inr v)"

definition h5_item :: "'v option \<Rightarrow> error + 'v" where
  "h5_item x = (case x of None \<Rightarrow> Inl KeyError | Some v \<Rightarrow> Inr v)"

subsection \<open>The checks and the property setters\<close>

text \<open>\<^verbatim>\<open>check_type(name, value, Real)\<close>: NumPy integers and floats are \<^verbatim>\<open>Real\<close>.\<close>

definition check_type_Real :: "h5value \<Rightarrow> error + real" where
  "check_type_Real v =
     (case v of
        H5Float x \<Rightarrow> Inr x
      | H5Int i \<Rightarrow> Inr (of_int i)
      | _ \<Rightarrow> Inl TypeError)"

text \<open>\<^verbatim>\<open>check_type(name, value, np.ndarray)\<close>, giving the shape and the elements.\<close>

definition check_type_ndarray :: "h5value \<Rightarrow> error + nat list \<times> elements" where
  "check_type_ndarray v =
     (case v of
        H5Array sh el \<Rightarrow> Inr (sh, el)
      | _ \<Rightarrow> Inl TypeError)"

definition check_greater_than :: "real \<Rightarrow> real \<Rightarrow> bool \<Rightarrow> error + unit" where
  "check_greater_than v minimum equality =
     (if equality then
        (if v < minimum then Inl ValueError else Inr ())
      else
        (if v \<le> minimum then Inl ValueError else Inr ()))"

definition set_spacing :: "h5value \<Rightarrow> error + real" where
  "set_spacing v =
     and_then (check_type_Real v) (\<lambda>x.
     and_then (check_greater_than x 0 False) (\<lambda>_. Inr x))"

definition set_sqrtAWR :: "h5value \<Rightarrow> error + real" where
  "set_sqrtAWR v =
     and_then (check_type_Real v) (\<lambda>x.
     and_then (check_greater_than x 0 False) (\<lambda>_. Inr x))"

definition set_start_E :: "h5value \<Rightarrow> error + real" where
  "set_start_E v =
     and_then (check_type_Real v) (\<lambda>x.
     and_then (check_greater_than x 0 True) (\<lambda>_. Inr x))"

definition set_end_E :: "h5value \<Rightarrow> error + real" where
  "set_end_E v =
     and_then (check_type_Real v) (\<lambda>x.
     and_then (check_greater_than x 0 False) (\<lambda>_. Inr x))"

definition set_data :: "h5value \<Rightarrow> error + complex ndarray" where
  "set_data v =
     and_then (check_type_ndarray v) (\<lambda>(sh, el).
     if length sh \<noteq> 2 then Inl ValueError
     else if sh ! 1 \<notin> {3, 4} then Inl ValueError
     else (case el of
             Complexes xs \<Rightarrow> Inr \<lparr>shape = sh, elems = xs\<rparr>
           | _ \<Rightarrow> Inl TypeError))"

definition set_w_start :: "h5value \<Rightarrow> error + int ndarray" where
  "set_w_start v =
     and_then (check_type_ndarray v) (\<lambda>(sh, el).
     if length sh \<noteq> 1 then Inl ValueError
     else (case el of
             Ints xs \<Rightarrow> Inr \<lparr>shape = sh, elems = xs\<rparr>
           | _ \<Rightarrow> Inl TypeError))"

definition set_w_end :: "h5value \<Rightarrow> error + int ndarray" where
  "set_w_end v =
     and_then (check_type_ndarray v) (\<lambda>(sh, el).
     if length sh \<noteq> 1 then Inl ValueError
     else (case el of
             Ints xs \<Rightarrow> Inr \<lparr>shape = sh, elems = xs\<rparr>
           | _ \<Rightarrow> Inl TypeError))"

definition set_broaden_poly :: "h5value \<Rightarrow> error + bool ndarray" where
  "set_broaden_poly v =
     and_then (check_type_ndarray v) (\<lambda>(sh, el).
     if length sh \<noteq> 1 then Inl ValueError
     else (case el of
             Bools xs \<Rightarrow> Inr \<lparr>shape = sh, elems = xs\<rparr>
           | _ \<Rightarrow> Inl TypeError))"

definition set_curvefit :: "h5value \<Rightarrow> error + real ndarray" where
  "set_curvefit v =
     and_then (check_type_ndarray v) (\<lambda>(sh, el).
     if length sh \<noteq> 3 then Inl ValueError
     else if sh ! 2 \<notin> {2, 3} then Inl ValueError
     else (case el of
             Floats xs \<Rightarrow> Inr \<lparr>shape = sh, elems = xs\<rparr>
           | _ \<Rightarrow> Inl TypeError))"

text \<open>\<^verbatim>\<open>.astype(np.bool)\<close>: a nonzero element is \<^verbatim>\<open>True\<close>.\<close>

definition astype_bool :: "h5value \<Rightarrow> h5value" where
  "astype_bool v =
     (case v of
        H5Bool b \<Rightarrow> H5Bool b
      | H5Int i \<Rightarrow> H5Bool (i \<noteq> 0)
      | H5Float x \<Rightarrow> H5Bool (x \<noteq> 0)
      | H5Array sh (Bools xs) \<Rightarrow> H5Array sh (Bools xs)
      | H5Array sh (Ints xs) \<Rightarrow> H5Array sh (Bools (map (\<lambda>x. x \<noteq> 0) xs))
      | H5Array sh (Floats xs) \<Rightarrow> H5Array sh (Bools (map (\<lambda>x. x \<noteq> 0) xs))
      | H5Array sh (Complexes xs) \<Rightarrow> H5Array sh (Bools (map (\<lambda>x. x \<noteq> 0) xs)))"

subsection \<open>\<^verbatim>\<open>WindowedMultipole.from_hdf5\<close>\<close>

text \<open>
  \<^verbatim>\<open>h5file['version'].value.decode()\<close>, and \<^verbatim>\<open>.value[0].decode()\<close> when that raises
  AttributeError: a scalar number has no \<^verbatim>\<open>decode\<close> and cannot be indexed, an array
  has no \<^verbatim>\<open>decode\<close>, and neither has a number taken from an array.
\<close>

definition read_version :: "version_value \<Rightarrow> error + string" where
  "read_version v =
     (case v of
        VBytes s \<Rightarrow> Inr s
      | VBytesArray [] \<Rightarrow> Inl IndexError
      | VBytesArray (s # _) \<Rightarrow> Inr s
      | VNumber \<Rightarrow> Inl IndexError
      | VNumberArray 0 \<Rightarrow> Inl IndexError
      | VNumberArray (Suc _) \<Rightarrow> Inl AttributeError)"

text \<open>\<^verbatim>\<open>h5py.File(name, 'r')\<close> on a file system \<open>fs\<close>: a missing file raises OSError.\<close>

definition h5py_File :: "(string \<rightharpoonup> h5file) \<Rightarrow> string \<Rightarrow> error + h5file" where
  "h5py_File fs name = (case fs name of None \<Rightarrow> Inl OSError | Some f \<Rightarrow> Inr f)"

text \<open>The first statement of \<^verbatim>\<open>from_hdf5\<close>: the group to read from.\<close>

definition open_group :: "(string \<rightharpoonup> h5file) \<Rightarrow> group_or_filename \<Rightarrow> error + h5group" where
  "open_group fs group_or_filename =
     (case group_or_filename of
        Group grp \<Rightarrow> Inr grp
      | Filename name \<Rightarrow>
          and_then (h5py_File fs name) (\<lambda>h5file.
          and_then (h5_item (version h5file)) (\<lambda>v.
          and_then (read_version v) (\<lambda>version.
          if version \<noteq> WMP_VERSION then Inl ValueError
          else h5_item (nuclide h5file)))))"

definition from_hdf5 ::
  "(string \<rightharpoonup> h5file) \<Rightarrow> group_or_filename \<Rightarrow> error + WindowedMultipole" where
  "from_hdf5 fs group_or_filename =
     and_then (open_group fs group_or_filename) (\<lambda>grp.
     and_then (and_then (h5_get grp ''spacing'') set_spacing) (\<lambda>out_spacing.
     and_then (and_then (h5_get grp ''sqrtAWR'') set_sqrtAWR) (\<lambda>out_sqrtAWR.
     and_then (and_then (h5_get grp ''start_E'') set_start_E) (\<lambda>out_start_E.
     and_then (and_then (h5_get grp ''end_E'') set_end_E) (\<lambda>out_end_E.
     and_then (and_then (h5_get grp ''data'') set_data) (\<lambda>out_data.
     and_then (and_then (h5_get grp ''w_start'') set_w_start) (\<lambda>out_w_start.
     and_then (and_then (h5_get grp ''w_end'') set_w_end) (\<lambda>out_w_end.
     and_then (shape_at out_w_end 0) (\<lambda>n_end.
     and_then (shape_at out_w_start 0) (\<lambda>n_start.
     if n_end \<noteq> n_start then Inl ValueError else
     and_then (and_then (h5_get grp ''broaden_poly'') (\<lambda>v. set_broaden_poly (astype_bool v)))
       (\<lambda>out_broaden_poly.
     and_then (shape_at out_broaden_poly 0) (\<lambda>n_broaden.
     and_then (shape_at out_w_start 0) (\<lambda>n_start.
     if n_broaden \<noteq> n_start then Inl ValueError else
     and_then (and_then (h5_get grp ''curvefit'') set_curvefit) (\<lambda>out_curvefit.
     and_then (shape_at out_curvefit 0) (\<lambda>n_fit.
     and_then (shape_at out_w_start 0) (\<lambda>n_start.
     if n_fit \<noteq> n_start then Inl ValueError else
     let out = \<lparr>spacing = out_spacing, sqrtAWR = out_sqrtAWR, start_E = out_start_E,
                end_E = out_end_E, data = out_data, w_start = out_w_start,
                w_end = out_w_end, broaden_poly = out_broaden_poly,
                curvefit = out_curvefit\<rparr>
     in
     and_then (fit_order out) (\<lambda>order.
     if order < 2 then Inl ValueError else Inr out)))))))))))))))))"

subsection \<open>The recurrence of the specification\<close>

text \<open>
  The broadened basis values as the specification (section 4.3) words them, as a function
  of the index: with \<open>sqrtE = sqrt E\<close>, \<open>beta = sqrtE * dopp\<close> and \<open>h = 1 / (2 dopp\<^sup>2)\<close>,
  \<open>f[0] = erf(beta) / E\<close>, \<open>f[1] = 1 / sqrtE\<close>,
  \<open>f[2] = f[0] (h + E) + exp(-beta\<^sup>2) / (beta sqrt(\<pi>))\<close>, and for \<open>i \<ge> 1\<close>:
  \<open>f[i+2] = f[i] (E + (1+2i) h)\<close> if \<open>i = 1\<close>, else
  \<open>f[i+2] = - f[i-2] (i-1) i h\<^sup>2 + f[i] (E + (1+2i) h)\<close>; for \<open>beta > 6\<close>,
  \<open>erf(beta)\<close> is 1 and \<open>exp(-beta\<^sup>2)\<close> is 0.
\<close>

function broadened_basis :: "real \<Rightarrow> real \<Rightarrow> nat \<Rightarrow> real" where
  "broadened_basis E dopp k =
     (let sqrtE = sqrt E; beta = sqrtE * dopp; h = 1 / (2 * dopp ^ 2);
          erf_beta = (if beta > 6 then 1 else erf beta);
          exp_m_beta2 = (if beta > 6 then 0 else exp (- (beta ^ 2)))
      in
      if k = 0 then erf_beta / E
      else if k = 1 then 1 / sqrtE
      else if k = 2 then
        broadened_basis E dopp 0 * (h + E) + exp_m_beta2 / (beta * sqrt pi)
      else
        let i = k - 2 in
        if i = 1 then broadened_basis E dopp i * (E + (1 + 2 * real i) * h)
        else - broadened_basis E dopp (i - 2) * (real i - 1) * real i * h ^ 2
             + broadened_basis E dopp i * (E + (1 + 2 * real i) * h))"
  by pat_completeness auto
termination
  by (relation "measure (\<lambda>(E, dopp, k). k)") auto

declare broadened_basis.simps [simp del]

subsection \<open>What construction establishes\<close>

text \<open>
  The conjunction of the checks of the property setters and of \<^verbatim>\<open>from_hdf5\<close>:
  the scalar ranges, the ranks, the column and channel counts, the equal lengths of the
  window arrays, and a fit order of at least 2.
\<close>

definition validated :: "WindowedMultipole \<Rightarrow> bool" where
  "validated t =
     (0 < spacing t \<and> 0 < sqrtAWR t \<and> 0 \<le> start_E t \<and> 0 < end_E t
      \<and> (\<exists>np nc. shape (data t) = [np, nc] \<and> (nc = 3 \<or> nc = 4))
      \<and> (\<exists>nw m p. shape (w_start t) = [nw] \<and> shape (w_end t) = [nw]
            \<and> shape (broaden_poly t) = [nw] \<and> shape (curvefit t) = [nw, m, p]
            \<and> 3 \<le> m \<and> (p = 2 \<or> p = 3)))"

subsection \<open>Concrete tables\<close>

text \<open>
  The scenario of the specification (section 8): \<open>startE = 1\<close>, \<open>endE = 100\<close>, one
  window with an empty pole range and the unbroadened total coefficients \<open>[a, b, c]\<close>;
  the spacing is the parameter \<open>sp\<close>. The table has no poles and no fission channel;
  its absorption coefficients are zero.
\<close>

definition scenario_group :: "real \<Rightarrow> real \<Rightarrow> real \<Rightarrow> real \<Rightarrow> h5group" where
  "scenario_group sp a b c =
     [''spacing'' \<mapsto> H5Float sp, ''sqrtAWR'' \<mapsto> H5Float 1,
      ''start_E'' \<mapsto> H5Float 1, ''end_E'' \<mapsto> H5Float 100,
      ''data'' \<mapsto> H5Array [0, 3] (Complexes []),
      ''w_start'' \<mapsto> H5Array [1] (Ints [1]),
      ''w_end'' \<mapsto> H5Array [1] (Ints [0]),
      ''broaden_poly'' \<mapsto> H5Array [1] (Ints [0]),
      ''curvefit'' \<mapsto> H5Array [1, 3, 2] (Floats [a, 0, b, 0, c, 0])]"

definition scenario_table :: "real \<Rightarrow> real \<Rightarrow> real \<Rightarrow> real \<Rightarrow> WindowedMultipole" where
  "scenario_table sp a b c =
     \<lparr>spacing = sp, sqrtAWR = 1, start_E = 1, end_E = 100,
      data = \<lparr>shape = [0, 3], elems = []\<rparr>,
      w_start = \<lparr>shape = [1], elems = [1]\<rparr>,
      w_end = \<lparr>shape = [1], elems = [0]\<rparr>,
      broaden_poly = \<lparr>shape = [1], elems = [False]\<rparr>,
      curvefit = \<lparr>shape = [1, 3, 2], elems = [a, 0, b, 0, c, 0]\<rparr>\<rparr>"

text \<open>
  A table on \<open>[0, 16]\<close> eV with spacing 2: its two windows tile \<open>sqrt E \<in> [0, 4]\<close>
  exactly, and each holds one pole. \<^verbatim>\<open>broaden_poly\<close> is stored as integers, as
  \<^verbatim>\<open>export_to_hdf5\<close> writes it.
\<close>

definition example_group :: h5group where
  "example_group =
     [''spacing'' \<mapsto> H5Float 2, ''sqrtAWR'' \<mapsto> H5Float 1,
      ''start_E'' \<mapsto> H5Float 0, ''end_E'' \<mapsto> H5Float 16,
      ''data'' \<mapsto> H5Array [2, 3]
         (Complexes [Complex 1 (- 1), Complex 0 8, 8, Complex 3 (- 1), Complex 0 8, 8]),
      ''w_start'' \<mapsto> H5Array [2] (Ints [1, 2]),
      ''w_end'' \<mapsto> H5Array [2] (Ints [1, 2]),
      ''broaden_poly'' \<mapsto> H5Array [2] (Ints [1, 0]),
      ''curvefit'' \<mapsto> H5Array [2, 3, 2] (Floats [1, 2, 3, 4, 5, 6, 7, 8, 9, 10, 11, 12])]"

definition example_table :: WindowedMultipole where
  "example_table =
     \<lparr>spacing = 2, sqrtAWR = 1, start_E = 0, end_E = 16,
      data = \<lparr>shape = [2, 3],
               elems = [Complex 1 (- 1), Complex 0 8, 8, Complex 3 (- 1), Complex 0 8, 8]\<rparr>,
      w_start = \<lparr>shape = [2], elems = [1, 2]\<rparr>,
      w_end = \<lparr>shape = [2], elems = [1, 2]\<rparr>,
      broaden_poly = \<lparr>shape = [2], elems = [True, False]\<rparr>,
      curvefit = \<lparr>shape = [2, 3, 2], elems = [1, 2, 3, 4, 5, 6, 7, 8, 9, 10, 11, 12]\<rparr>\<rparr>"

text \<open>
  The same group with \<^verbatim>\<open>w_end = [1, 7]\<close>: the second window claims the poles
  \<open>[1, 7)\<close> of a table that has two.
\<close>

definition overrun_group :: h5group where
  "overrun_group = example_group(''w_end'' \<mapsto> H5Array [2] (Ints [1, 7]))"

definition overrun_table :: WindowedMultipole where
  "overrun_table = example_table\<lparr>w_end := \<lparr>shape = [2], elems = [1, 7]\<rparr>\<rparr>"

text \<open>Two files holding \<open>example_group\<close>: one stamped \<^verbatim>\<open>v0.9\<close>, one \<^verbatim>\<open>v1.0\<close>.\<close>

definition old_file :: h5file where
  "old_file = \<lparr>version = Some (VBytesArray [''v0.9'']), nuclide = Some example_group\<rparr>"

definition current_file :: h5file where
  "current_file = \<lparr>version = Some (VBytesArray [''v1.0'']), nuclide = Some example_group\<rparr>"

definition example_fs :: "string \<rightharpoonup> h5file" where
  "example_fs = [''old.h5'' \<mapsto> old_file, ''current.h5'' \<mapsto> current_file]"

section \<open>Auxiliary facts\<close>

subsection \<open>Sequencing and loops\<close>

lemma and_then_Inr [simp]: "and_then (Inr v) f = f v"
  by (simp add: and_then_def)

lemma and_then_Inl [simp]: "and_then (Inl e) f = Inl e"
  by (simp add: and_then_def)

lemma and_then_eq_Inr: "and_then m f = Inr y \<longleftrightarrow> (\<exists>v. m = Inr v \<and> f v = Inr y)"
  by (cases m) simp_all

lemma for_loop_invariant:
  assumes "for_loop xs body s = Inr s'" and "P s"
    and "\<And>i a b. i \<in> set xs \<Longrightarrow> P a \<Longrightarrow> body i a = Inr b \<Longrightarrow> P b"
  shows "P s'"
  using assms
proof (induction xs arbitrary: s)
  case Nil
  then show ?case by simp
next
  case (Cons x xs)
  from Cons.prems(1) obtain m where m: "body x s = Inr m" "for_loop xs body m = Inr s'"
    by (auto simp: and_then_eq_Inr)
  have "P m" using Cons.prems(2,3) m(1) by auto
  then show ?case using Cons.IH [OF m(2)] Cons.prems(3) by auto
qed

lemma for_loop_returns:
  assumes "\<And>i s. i \<in> set xs \<Longrightarrow> \<exists>s'. body i s = Inr s'"
  shows "\<exists>s'. for_loop xs body s = Inr s'"
  using assms
proof (induction xs arbitrary: s)
  case Nil
  then show ?case by simp
next
  case (Cons x xs)
  obtain m where "body x s = Inr m" using Cons.prems [of x s] by auto
  moreover have "\<exists>s'. for_loop xs body m = Inr s'"
    by (rule Cons.IH) (use Cons.prems in auto)
  ultimately show ?case by simp
qed

lemma set_py_range: "set (py_range lo hi) = {i. lo \<le> i \<and> i < hi}"
  by (auto simp: py_range_def)

subsection \<open>Indexing inside the bounds\<close>

lemma np_index_in_range: "0 \<le> i \<Longrightarrow> i < int n \<Longrightarrow> np_index n i = Inr (nat i)"
  by (simp add: np_index_def)


lemma get1_in_range:
  "shape a = [n] \<Longrightarrow> 0 \<le> i \<Longrightarrow> i < int n \<Longrightarrow> get1 a i = Inr (elems a ! nat i)"
  by (simp add: get1_def np_index_in_range)

lemma get2_in_range:
  "shape a = [n, m] \<Longrightarrow> 0 \<le> i \<Longrightarrow> i < int n \<Longrightarrow> 0 \<le> j \<Longrightarrow> j < int m
     \<Longrightarrow> get2 a i j = Inr (elems a ! (nat i * m + nat j))"
  by (simp add: get2_def np_index_in_range)

lemma get3_in_range:
  "shape a = [n, m, p] \<Longrightarrow> 0 \<le> i \<Longrightarrow> i < int n \<Longrightarrow> 0 \<le> j \<Longrightarrow> j < int m
     \<Longrightarrow> 0 \<le> k \<Longrightarrow> k < int p
     \<Longrightarrow> get3 a i j k = Inr (elems a ! ((nat i * m + nat j) * p + nat k))"
  by (simp add: get3_def np_index_in_range)

lemma get_item_in_range:
  "0 \<le> i \<Longrightarrow> i < int (length xs) \<Longrightarrow> get_item xs i = Inr (xs ! nat i)"
  by (simp add: get_item_def np_index_def)

lemma set_item_in_range:
  "0 \<le> i \<Longrightarrow> i < int (length xs) \<Longrightarrow> set_item xs i v = Inr (xs[nat i := v])"
  by (simp add: set_item_def np_index_def)

subsection \<open>Numerals\<close>

lemma K_BOLTZMANN_pos: "0 < K_BOLTZMANN"
  by (simp add: K_BOLTZMANN_def)

lemma sqrt_4: "sqrt 4 = 2"
  using real_sqrt_abs [of 2] by simp

lemma sqrt_16: "sqrt 16 = 4"
  using real_sqrt_abs [of 4] by simp

lemma sqrt_25: "sqrt 25 = 5"
  using real_sqrt_abs [of 5] by simp

lemma sqrt_49: "sqrt 49 = 7"
  using real_sqrt_abs [of 7] by simp

lemmas eval_simps = evaluate_def math_sqrt_def py_div_def locate_window_def int_floor_div_def
  get1_def get2_def get3_def np_index_def curvefit_contribution_def fit_order_def shape_at_def
  py_range_def unbroadened_body_def broadened_body_def fissionable_def FIT_T_def FIT_A_def
  FIT_F_def poles_contribution_def pole_body_0K_def pole_body_T_def MP_EA_def MP_RT_def
  MP_RA_def MP_RF_def Let_def

lemmas from_hdf5_simps = from_hdf5_def open_group_def h5_get_def h5_item_def h5py_File_def
      read_version_def WMP_VERSION_def
      set_spacing_def set_sqrtAWR_def set_start_E_def set_end_E_def set_data_def
      set_w_start_def set_w_end_def set_broaden_poly_def set_curvefit_def astype_bool_def
      check_type_Real_def check_type_ndarray_def check_greater_than_def shape_at_def
      fit_order_def

subsection \<open>The broadening recurrence\<close>

lemma broadened_basis_0:
  "broadened_basis E dopp 0 = (if sqrt E * dopp > 6 then 1 else erf (sqrt E * dopp)) / E"
  by (subst broadened_basis.simps) (simp add: Let_def)

lemma broadened_basis_1: "broadened_basis E dopp (Suc 0) = 1 / sqrt E"
  by (subst broadened_basis.simps) (simp add: Let_def)

lemma broadened_basis_2:
  "broadened_basis E dopp 2 =
     broadened_basis E dopp 0 * (1 / (2 * dopp ^ 2) + E)
     + (if sqrt E * dopp > 6 then 0 else exp (- ((sqrt E * dopp) ^ 2))) / (sqrt E * dopp * sqrt pi)"
  by (subst broadened_basis.simps) (simp add: Let_def)

lemma broadened_basis_step:
  "1 \<le> i \<Longrightarrow> broadened_basis E dopp (i + 2) =
     (if i = 1 then broadened_basis E dopp i * (E + (1 + 2 * real i) * (1 / (2 * dopp ^ 2)))
      else - broadened_basis E dopp (i - 2) * (real i - 1) * real i * (1 / (2 * dopp ^ 2)) ^ 2
           + broadened_basis E dopp i * (E + (1 + 2 * real i) * (1 / (2 * dopp ^ 2))))"
  by (subst broadened_basis.simps) (simp add: Let_def)

lemma broaden_body_step:
  assumes "1 \<le> i" "i + 2 < int (length xs)"
    and "\<forall>j < nat i + 2. xs ! j = broadened_basis E dopp j"
  shows "broaden_body E (1 / (2 * dopp ^ 2)) ((1 / (2 * dopp ^ 2)) ^ 2) i xs
           = Inr (xs[nat i + 2 := broadened_basis E dopp (nat i + 2)])"
proof -
  obtain m where m: "i = int m" "1 \<le> m"
    using assms(1) by (metis nat_0_le nat_one_as_int nat_mono order_trans zero_le_one)
  have len: "m + 2 < length xs" using assms(2) m(1) by simp
  have g: "get_item xs (int m) = Inr (xs ! m)"
    using len by (simp add: get_item_def np_index_def)
  have st: "set_item xs (int m + 2) v = Inr (xs[m + 2 := v])" for v
    using len by (simp add: set_item_def np_index_def nat_add_distrib)
  have xm: "xs ! m = broadened_basis E dopp m"
    using assms(3) m(1) by simp
  show ?thesis
  proof (cases "m = 1")
    case True
    have F3: "broadened_basis E dopp 3
                = broadened_basis E dopp 1 * (E + (1 + 2 * 1) * (1 / (2 * dopp ^ 2)))"
      using broadened_basis_step [of 1 E dopp] by (simp add: numeral_3_eq_3)
    have x1: "xs ! 1 = broadened_basis E dopp 1"
      using xm True by simp
    have l3: "3 < length xs" using len True by simp
    have i3: "nat i + 2 = 3" using True m(1) by simp
    have "broaden_body E (1 / (2 * dopp ^ 2)) ((1 / (2 * dopp ^ 2)) ^ 2) 1 xs
            = Inr (xs[3 := broadened_basis E dopp 3])"
      using l3 x1
      by (simp add: broaden_body_def get_item_in_range set_item_in_range F3)
    then show ?thesis
      unfolding i3 using True m(1) by simp
  next
    case False
    then have m2: "2 \<le> m" using m(2) by simp
    have g2: "get_item xs (int m - 2) = Inr (xs ! (m - 2))"
      using len m2 by (simp add: get_item_def np_index_def nat_diff_distrib)
    have xm2: "xs ! (m - 2) = broadened_basis E dopp (m - 2)"
      using assms(3) m(1) by simp
    have ne: "int m \<noteq> 1" using False by simp
    show ?thesis
      unfolding m(1) broaden_body_def
      using broadened_basis_step [OF m(2), of E dopp] xm xm2 False ne
      by (simp add: g g2 st)
  qed
qed

lemma broaden_loop:
  assumes "1 \<le> k" "k \<le> int (length xs) - 2"
    and "\<forall>j < nat k + 2. xs ! j = broadened_basis E dopp j"
  shows "\<exists>ys. for_loop [k..int (length xs) - 3]
                 (broaden_body E (1 / (2 * dopp ^ 2)) ((1 / (2 * dopp ^ 2)) ^ 2)) xs = Inr ys
              \<and> length ys = length xs \<and> (\<forall>j < length xs. ys ! j = broadened_basis E dopp j)"
  using assms
proof (induction "nat (int (length xs) - 2 - k)" arbitrary: k xs)
  case 0
  then have e: "k = int (length xs) - 2" by simp
  then have "[k..int (length xs) - 3] = []" by simp
  moreover have "nat k + 2 = length xs" using e "0.prems"(1) by simp
  ultimately show ?case using "0.prems"(3) by simp
next
  case (Suc d)
  let ?body = "broaden_body E (1 / (2 * dopp ^ 2)) ((1 / (2 * dopp ^ 2)) ^ 2)"
  let ?xs' = "xs[nat k + 2 := broadened_basis E dopp (nat k + 2)]"
  have lt: "k + 2 < int (length xs)" using Suc.hyps(2) by simp
  have u: "[k..int (length xs) - 3] = k # [k + 1..int (length xs) - 3]"
    using lt by (simp add: upto_rec1)
  have b: "?body k xs = Inr ?xs'"
    by (rule broaden_body_step [OF Suc.prems(1) lt Suc.prems(3)])
  have len: "length ?xs' = length xs" by simp
  have inv: "\<forall>j < nat (k + 1) + 2. ?xs' ! j = broadened_basis E dopp j"
  proof (intro allI impI)
    fix j assume j: "j < nat (k + 1) + 2"
    show "?xs' ! j = broadened_basis E dopp j"
    proof (cases "j = nat k + 2")
      case True
      then show ?thesis using lt Suc.prems(1) by simp
    next
      case False
      then have "j < nat k + 2" using j Suc.prems(1) by (simp add: nat_add_distrib)
      then show ?thesis using False Suc.prems(3) by simp
    qed
  qed
  have d: "d = nat (int (length ?xs') - 2 - (k + 1))" using Suc.hyps(2) by simp
  have "\<exists>ys. for_loop [k + 1..int (length ?xs') - 3] ?body ?xs' = Inr ys
         \<and> length ys = length ?xs' \<and> (\<forall>j < length ?xs'. ys ! j = broadened_basis E dopp j)"
    by (rule Suc.hyps(1) [OF d]) (use Suc.prems(1) lt inv in simp_all)
  then show ?case using u b by simp
qed

lemma broaden_wmp_polynomials_value:
  assumes "0 < E" "0 < dopp" "3 \<le> n"
  shows "broaden_wmp_polynomials E dopp n = Inr (map (broadened_basis E dopp) [0..<nat n])"
proof -
  let ?F = "broadened_basis E dopp"
  let ?h = "1 / (2 * dopp ^ 2)"
  let ?xs = "(replicate (nat n) (0::real))[0 := ?F 0, 1 := ?F 1, 2 := ?F 2]"
  have len: "length ?xs = nat n" by simp
  have n3: "3 \<le> nat n" using assms(3) by simp
  have init: "\<forall>j < nat 1 + 2. ?xs ! j = ?F j"
  proof (intro allI impI)
    fix j :: nat assume "j < nat 1 + 2"
    then have "j = 0 \<or> j = 1 \<or> j = 2" by auto
    then show "?xs ! j = ?F j" using n3 by auto
  qed
  have "\<exists>ys. for_loop [1..int (length ?xs) - 3] (broaden_body E ?h (?h ^ 2)) ?xs = Inr ys
         \<and> length ys = length ?xs \<and> (\<forall>j < length ?xs. ys ! j = ?F j)"
    by (rule broaden_loop [OF _ _ init]) (use assms(3) in simp_all)
  then obtain ys where
    l: "for_loop [1..n - 3] (broaden_body E ?h (?h ^ 2)) ?xs = Inr ys"
    and ys: "length ys = nat n" "\<forall>j < nat n. ys ! j = ?F j"
    using assms(3) by auto
  have eq: "ys = map ?F [0..<nat n]"
    using ys by (intro nth_equalityI) simp_all
  have sq: "0 < sqrt E" "sqrt E * dopp \<noteq> 0" "dopp ^ 2 \<noteq> 0" "E \<noteq> 0"
    using assms(1,2) by simp_all
  have h: "py_div 0.5 (dopp ^ 2) = Inr ?h"
    using sq(3) by (simp add: py_div_def)
  have z: "np_zeros n = Inr (replicate (nat n) 0)"
    using assms(3) by (simp add: np_zeros_def)
  have s0: "set_item (replicate (nat n) 0) 0 v = Inr ((replicate (nat n) 0)[0 := v])" for v
    using n3 assms(3) by (simp add: set_item_def np_index_def)
  have s1: "set_item ((replicate (nat n) 0)[0 := v]) 1 w
             = Inr ((replicate (nat n) 0)[0 := v, Suc 0 := w])" for v w
    using n3 assms(3) by (simp add: set_item_def np_index_def)
  have s2: "set_item ((replicate (nat n) 0)[0 := v, Suc 0 := w]) 2 u
             = Inr ((replicate (nat n) 0)[0 := v, Suc 0 := w, 2 := u])" for v w u
    using n3 assms(3) by (simp add: set_item_def np_index_def)
  have g0: "get_item ((replicate (nat n) 0)[0 := v, Suc 0 := w]) 0 = Inr v" for v w
    using n3 assms(3) by (simp add: get_item_def np_index_def)
  have r: "py_range 1 (n - 2) = [1..n - 3]"
    by (simp add: py_range_def)
  have "broaden_wmp_polynomials E dopp n
          = for_loop [1..n - 3] (broaden_body E ?h (?h ^ 2)) ?xs"
    unfolding broaden_wmp_polynomials_def
    using assms(1) sq
    by (simp add: math_sqrt_def h z Let_def py_div_def s0 s1 s2 g0 r
        broadened_basis_0 broadened_basis_1 broadened_basis_2)
  then show ?thesis
    using l eq by simp
qed

subsection \<open>The fission channel of a table without fission data\<close>

lemma broadened_body_fission:
  "fissionable self = Inr False \<Longrightarrow> broadened_body self w bp i s = Inr s' \<Longrightarrow> snd (snd s') = snd (snd s)"
  by (auto simp: broadened_body_def and_then_eq_Inr Let_def split: prod.splits)

lemma unbroadened_body_fission:
  "fissionable self = Inr False \<Longrightarrow> unbroadened_body self w sqrtE i s = Inr s' \<Longrightarrow> snd (snd (fst s')) = snd (snd (fst s))"
  by (auto simp: unbroadened_body_def and_then_eq_Inr Let_def split: prod.splits)

lemma pole_body_0K_fission:
  "fissionable self = Inr False \<Longrightarrow> pole_body_0K self E sqrtE i s = Inr s' \<Longrightarrow> snd (snd s') = snd (snd s)"
  by (auto simp: pole_body_0K_def and_then_eq_Inr Let_def split: prod.splits)

lemma pole_body_T_fission:
  "fissionable self = Inr False \<Longrightarrow> pole_body_T self sqrtE invE dopp i s = Inr s' \<Longrightarrow> snd (snd s') = snd (snd s)"
  by (auto simp: pole_body_T_def and_then_eq_Inr Let_def split: prod.splits)

lemma curvefit_contribution_fission:
  assumes "fissionable self = Inr False"
    and "curvefit_contribution self E sqrtE invE sqrtkT w = Inr s"
  shows "snd (snd s) = 0"
proof -
  from assms(2) obtain b where b: "(if sqrtkT \<noteq> 0 then get1 (broaden_poly self) w else Inr False) = Inr b"
    and r: "(if b then
       let dopp = sqrtAWR self / sqrtkT in
       and_then (fit_order self) (\<lambda>order.
       and_then (broaden_wmp_polynomials E dopp (order + 1)) (\<lambda>broadened_polynomials.
       for_loop (py_range 0 (order + 1))
         (broadened_body self w broadened_polynomials) (0, 0, 0)))
     else
       and_then (fit_order self) (\<lambda>order.
       and_then (for_loop (py_range 0 (order + 1))
                   (unbroadened_body self w sqrtE) ((0, 0, 0), invE))
         (\<lambda>(s, temp). Inr s))) = Inr s"
    unfolding curvefit_contribution_def and_then_eq_Inr by blast
  show ?thesis
  proof (cases b)
    case True
    with r obtain order bp where
      l: "for_loop (py_range 0 (order + 1)) (broadened_body self w bp) (0, 0, 0) = Inr s"
      by (auto simp: and_then_eq_Inr Let_def)
    show ?thesis
      by (rule for_loop_invariant [OF l, where P = "\<lambda>s. snd (snd s) = 0"])
        (auto dest: broadened_body_fission [OF assms(1)])
  next
    case False
    with r obtain order temp where
      l: "for_loop (py_range 0 (order + 1)) (unbroadened_body self w sqrtE) ((0, 0, 0), invE) = Inr (s, temp)"
      by (auto simp: and_then_eq_Inr Let_def split: prod.splits)
    have "snd (snd (fst (s, temp))) = 0"
      by (rule for_loop_invariant [OF l, where P = "\<lambda>s. snd (snd (fst s)) = 0"])
        (auto dest: unbroadened_body_fission [OF assms(1)])
    then show ?thesis by simp
  qed
qed

lemma poles_contribution_fission:
  assumes "fissionable self = Inr False"
    and "poles_contribution self E sqrtE invE sqrtkT startw endw s = Inr s'"
    and "snd (snd s) = 0"
  shows "snd (snd s') = 0"
proof (cases "sqrtkT = 0")
  case True
  with assms(2) have l: "for_loop (py_range startw endw) (pole_body_0K self E sqrtE) s = Inr s'"
    by (simp add: poles_contribution_def)
  show ?thesis
    by (rule for_loop_invariant [OF l, where P = "\<lambda>s. snd (snd s) = 0"])
      (use assms(3) in \<open>auto dest: pole_body_0K_fission [OF assms(1)]\<close>)
next
  case False
  with assms(2) have l: "for_loop (py_range startw endw)
      (pole_body_T self sqrtE invE (sqrtAWR self / sqrtkT)) s = Inr s'"
    by (simp add: poles_contribution_def Let_def)
  show ?thesis
    by (rule for_loop_invariant [OF l, where P = "\<lambda>s. snd (snd s) = 0"])
      (use assms(3) in \<open>auto dest: pole_body_T_fission [OF assms(1)]\<close>)
qed

subsection \<open>What \<^verbatim>\<open>from_hdf5\<close> has checked\<close>

lemma set_positive_Inr:
  "and_then (check_type_Real v) (\<lambda>x. and_then (check_greater_than x 0 False) (\<lambda>_. Inr x)) = Inr y
     \<Longrightarrow> 0 < y"
  by (auto simp: and_then_eq_Inr check_greater_than_def split: if_splits)

lemma set_start_E_Inr: "set_start_E v = Inr y \<Longrightarrow> 0 \<le> y"
  by (auto simp: set_start_E_def and_then_eq_Inr check_greater_than_def split: if_splits)

lemma length_2_cases: "length sh = 2 \<Longrightarrow> \<exists>a b. sh = [a, b]"
  by (cases sh; simp) (rename_tac x xs, case_tac xs; simp)

lemma length_1_cases: "length sh = Suc 0 \<Longrightarrow> \<exists>a. sh = [a]"
  by (cases sh; simp)

lemma length_3_cases: "length sh = 3 \<Longrightarrow> \<exists>a b c. sh = [a, b, c]"
  by (cases sh; simp) (rename_tac x xs, case_tac xs; simp; rename_tac y ys, case_tac ys; simp)

lemma set_data_Inr:
  "set_data v = Inr a \<Longrightarrow> \<exists>np nc. shape a = [np, nc] \<and> (nc = 3 \<or> nc = 4)"
  by (auto simp: set_data_def and_then_eq_Inr check_type_ndarray_def
      split: if_splits elements.splits h5value.splits dest!: length_2_cases)

lemma set_w_start_Inr: "set_w_start v = Inr a \<Longrightarrow> \<exists>n. shape a = [n]"
  by (auto simp: set_w_start_def and_then_eq_Inr check_type_ndarray_def
      split: if_splits elements.splits h5value.splits dest!: length_1_cases)

lemma set_w_end_Inr: "set_w_end v = Inr a \<Longrightarrow> \<exists>n. shape a = [n]"
  by (auto simp: set_w_end_def and_then_eq_Inr check_type_ndarray_def
      split: if_splits elements.splits h5value.splits dest!: length_1_cases)

lemma set_broaden_poly_Inr: "set_broaden_poly v = Inr a \<Longrightarrow> \<exists>n. shape a = [n]"
  by (auto simp: set_broaden_poly_def and_then_eq_Inr check_type_ndarray_def
      split: if_splits elements.splits h5value.splits dest!: length_1_cases)

lemma set_curvefit_Inr:
  "set_curvefit v = Inr a \<Longrightarrow> \<exists>n m p. shape a = [n, m, p] \<and> (p = 2 \<or> p = 3)"
  by (auto simp: set_curvefit_def and_then_eq_Inr check_type_ndarray_def
      split: if_splits elements.splits h5value.splits dest!: length_3_cases)

lemma from_hdf5_fields:
  assumes "from_hdf5 fs src = Inr t"
  shows "(\<exists>v. set_spacing v = Inr (spacing t)) \<and> (\<exists>v. set_sqrtAWR v = Inr (sqrtAWR t))
       \<and> (\<exists>v. set_start_E v = Inr (start_E t)) \<and> (\<exists>v. set_end_E v = Inr (end_E t))
       \<and> (\<exists>v. set_data v = Inr (data t)) \<and> (\<exists>v. set_w_start v = Inr (w_start t))
       \<and> (\<exists>v. set_w_end v = Inr (w_end t)) \<and> (\<exists>v. set_broaden_poly v = Inr (broaden_poly t))
       \<and> (\<exists>v. set_curvefit v = Inr (curvefit t))
       \<and> shape_at (w_end t) 0 = shape_at (w_start t) 0
       \<and> shape_at (broaden_poly t) 0 = shape_at (w_start t) 0
       \<and> shape_at (curvefit t) 0 = shape_at (w_start t) 0
       \<and> (\<exists>order. fit_order t = Inr order \<and> 2 \<le> order)"
  using assms
  by (auto simp: from_hdf5_def and_then_eq_Inr Let_def split: if_splits)

lemma from_hdf5_validated:
  assumes "from_hdf5 fs src = Inr t"
  shows "validated t"
proof -
  note f = from_hdf5_fields [OF assms]
  have 1: "0 < spacing t" using f by (auto simp: set_spacing_def dest: set_positive_Inr)
  have 2: "0 < sqrtAWR t" using f by (auto simp: set_sqrtAWR_def dest: set_positive_Inr)
  have 3: "0 \<le> start_E t" using f by (auto dest: set_start_E_Inr)
  have 4: "0 < end_E t" using f by (auto simp: set_end_E_def dest: set_positive_Inr)
  from f obtain np nc where 5: "shape (data t) = [np, nc]" "nc = 3 \<or> nc = 4"
    by (auto dest: set_data_Inr)
  from f obtain nw where 6: "shape (w_start t) = [nw]"
    by (auto dest: set_w_start_Inr)
  from f obtain nw' where 7: "shape (w_end t) = [nw']"
    by (auto dest: set_w_end_Inr)
  from f obtain nw'' where 8: "shape (broaden_poly t) = [nw'']"
    by (auto dest: set_broaden_poly_Inr)
  from f obtain n m p where 9: "shape (curvefit t) = [n, m, p]" "p = 2 \<or> p = 3"
    by (auto dest: set_curvefit_Inr)
  have 10: "nw' = nw" "nw'' = nw" "n = nw"
    using f 6 7 8 9 by (simp_all add: shape_at_def)
  have 11: "3 \<le> m"
    using f 9 by (auto simp: fit_order_def shape_at_def)
  show ?thesis
    unfolding validated_def using 1 2 3 4 5 6 7 8 9 10 11 by simp
qed

lemma from_hdf5_Group_fields:
  assumes "from_hdf5 fs (Group g) = Inr t"
  shows "(\<exists>v. g ''spacing'' = Some v \<and> set_spacing v = Inr (spacing t))
       \<and> (\<exists>v. g ''sqrtAWR'' = Some v \<and> set_sqrtAWR v = Inr (sqrtAWR t))
       \<and> (\<exists>v. g ''start_E'' = Some v \<and> set_start_E v = Inr (start_E t))
       \<and> (\<exists>v. g ''end_E'' = Some v \<and> set_end_E v = Inr (end_E t))
       \<and> (\<exists>v. g ''data'' = Some v \<and> set_data v = Inr (data t))
       \<and> (\<exists>v. g ''w_start'' = Some v \<and> set_w_start v = Inr (w_start t))
       \<and> (\<exists>v. g ''w_end'' = Some v \<and> set_w_end v = Inr (w_end t))
       \<and> (\<exists>v. g ''broaden_poly'' = Some v
             \<and> set_broaden_poly (astype_bool v) = Inr (broaden_poly t))
       \<and> (\<exists>v. g ''curvefit'' = Some v \<and> set_curvefit v = Inr (curvefit t))"
  using assms
  by (auto simp: from_hdf5_def open_group_def and_then_eq_Inr Let_def h5_get_def
      split: if_splits option.splits)

lemma set_w_start_shape:
  "set_w_start v = Inr a \<Longrightarrow> set_w_start (H5Array (shape a) (Ints xs)) = Inr \<lparr>shape = shape a, elems = xs\<rparr>"
  by (auto simp: set_w_start_def and_then_eq_Inr check_type_ndarray_def
      split: if_splits elements.splits h5value.splits)

lemma set_w_end_shape:
  "set_w_end v = Inr a \<Longrightarrow> set_w_end (H5Array (shape a) (Ints xs)) = Inr \<lparr>shape = shape a, elems = xs\<rparr>"
  by (auto simp: set_w_end_def and_then_eq_Inr check_type_ndarray_def
      split: if_splits elements.splits h5value.splits)

subsection \<open>The window index\<close>

lemma locate_window_in_range:
  assumes "validated t" "start_E t \<le> E"
  shows "locate_window t (sqrt E) = Inr \<lfloor>(sqrt E - sqrt (start_E t)) / spacing t\<rfloor>"
    and "0 \<le> \<lfloor>(sqrt E - sqrt (start_E t)) / spacing t\<rfloor>"
proof -
  have s: "0 < spacing t" "0 \<le> start_E t" using assms(1) by (simp_all add: validated_def)
  show "locate_window t (sqrt E) = Inr \<lfloor>(sqrt E - sqrt (start_E t)) / spacing t\<rfloor>"
    using s by (simp add: locate_window_def math_sqrt_def int_floor_div_def)
  have "0 \<le> sqrt E - sqrt (start_E t)" using assms(2) by simp
  then have "0 \<le> (sqrt E - sqrt (start_E t)) / spacing t" using s(1) by simp
  then show "0 \<le> \<lfloor>(sqrt E - sqrt (start_E t)) / spacing t\<rfloor>" by simp
qed

subsection \<open>When the loops of \<^verbatim>\<open>_evaluate\<close> return\<close>

lemma unbroadened_body_returns:
  assumes "shape (curvefit t) = [nw, m, p]" "p = 2 \<or> p = 3"
    and "shape (data t) = [np, nc]" "nc = 4 \<longrightarrow> p = 3"
    and "0 \<le> w" "w < int nw" "0 \<le> i" "i < int m"
  shows "\<exists>s'. unbroadened_body t w sqrtE i s = Inr s'"
proof -
  obtain sig_t sig_a sig_f temp where s: "s = ((sig_t, sig_a, sig_f), temp)"
    by (metis prod.exhaust)
  have g: "get3 (curvefit t) w i FIT_T = Inr (elems (curvefit t) ! ((nat w * m + nat i) * p + 0))"
    "get3 (curvefit t) w i FIT_A = Inr (elems (curvefit t) ! ((nat w * m + nat i) * p + 1))"
    using assms(1,2,5-8) by (auto simp: get3_in_range FIT_T_def FIT_A_def)
  have f: "fissionable t = Inr (nc = 4)"
    using assms(3) by (simp add: fissionable_def shape_at_def)
  have gf: "nc = 4 \<Longrightarrow> get3 (curvefit t) w i FIT_F
              = Inr (elems (curvefit t) ! ((nat w * m + nat i) * p + 2))"
    using assms(1,4-8) by (auto simp: get3_in_range FIT_F_def)
  show ?thesis
    unfolding unbroadened_body_def s using gf by (cases "nc = 4") (simp_all add: g f Let_def)
qed

lemma broadened_body_returns:
  assumes "shape (curvefit t) = [nw, m, p]" "p = 2 \<or> p = 3"
    and "shape (data t) = [np, nc]" "nc = 4 \<longrightarrow> p = 3"
    and "0 \<le> w" "w < int nw" "0 \<le> i" "i < int m" "length bp = m"
  shows "\<exists>s'. broadened_body t w bp i s = Inr s'"
proof -
  obtain sig_t sig_a sig_f where s: "s = (sig_t, sig_a, sig_f)"
    by (metis prod.exhaust)
  have g: "get3 (curvefit t) w i FIT_T = Inr (elems (curvefit t) ! ((nat w * m + nat i) * p + 0))"
    "get3 (curvefit t) w i FIT_A = Inr (elems (curvefit t) ! ((nat w * m + nat i) * p + 1))"
    using assms(1,2,5-8) by (auto simp: get3_in_range FIT_T_def FIT_A_def)
  have b: "get_item bp i = Inr (bp ! nat i)"
    using assms(7-9) by (simp add: get_item_in_range)
  have f: "fissionable t = Inr (nc = 4)"
    using assms(3) by (simp add: fissionable_def shape_at_def)
  have gf: "nc = 4 \<Longrightarrow> get3 (curvefit t) w i FIT_F
              = Inr (elems (curvefit t) ! ((nat w * m + nat i) * p + 2))"
    using assms(1,4-8) by (auto simp: get3_in_range FIT_F_def)
  show ?thesis
    unfolding broadened_body_def s using gf by (cases "nc = 4") (simp_all add: g b f Let_def)
qed

lemma pole_body_0K_returns:
  assumes "shape (data t) = [np, nc]" "nc = 3 \<or> nc = 4" "0 \<le> i" "i < int np"
  shows "\<exists>s'. pole_body_0K t E sqrtE i s = Inr s'"
proof -
  obtain sig_t sig_a sig_f where s: "s = (sig_t, sig_a, sig_f)"
    by (metis prod.exhaust)
  have g: "get2 (data t) i MP_EA = Inr (elems (data t) ! (nat i * nc + 0))"
    "get2 (data t) i MP_RT = Inr (elems (data t) ! (nat i * nc + 1))"
    "get2 (data t) i MP_RA = Inr (elems (data t) ! (nat i * nc + 2))"
    using assms by (auto simp: get2_in_range MP_EA_def MP_RT_def MP_RA_def)
  have f: "fissionable t = Inr (nc = 4)"
    using assms(1) by (simp add: fissionable_def shape_at_def)
  have gf: "nc = 4 \<Longrightarrow> get2 (data t) i MP_RF = Inr (elems (data t) ! (nat i * nc + 3))"
    using assms by (auto simp: get2_in_range MP_RF_def)
  show ?thesis
    unfolding pole_body_0K_def s using gf by (cases "nc = 4") (simp_all add: g f Let_def)
qed

lemma pole_body_T_returns:
  assumes "shape (data t) = [np, nc]" "nc = 3 \<or> nc = 4" "0 \<le> i" "i < int np"
  shows "\<exists>s'. pole_body_T t sqrtE invE dopp i s = Inr s'"
proof -
  obtain sig_t sig_a sig_f where s: "s = (sig_t, sig_a, sig_f)"
    by (metis prod.exhaust)
  have g: "get2 (data t) i MP_EA = Inr (elems (data t) ! (nat i * nc + 0))"
    "get2 (data t) i MP_RT = Inr (elems (data t) ! (nat i * nc + 1))"
    "get2 (data t) i MP_RA = Inr (elems (data t) ! (nat i * nc + 2))"
    using assms by (auto simp: get2_in_range MP_EA_def MP_RT_def MP_RA_def)
  have f: "fissionable t = Inr (nc = 4)"
    using assms(1) by (simp add: fissionable_def shape_at_def)
  have gf: "nc = 4 \<Longrightarrow> get2 (data t) i MP_RF = Inr (elems (data t) ! (nat i * nc + 3))"
    using assms by (auto simp: get2_in_range MP_RF_def)
  show ?thesis
    unfolding pole_body_T_def s using gf by (cases "nc = 4") (simp_all add: g f Let_def)
qed

lemma curvefit_contribution_returns:
  assumes "validated t" "shape (curvefit t) = [nw, m, p]" "shape (data t) = [np, nc]"
    and "nc = 4 \<longrightarrow> p = 3" "0 \<le> w" "w < int nw" "0 < E" "0 \<le> sqrtkT"
  shows "\<exists>s. curvefit_contribution t E sqrtE invE sqrtkT w = Inr s"
proof -
  from assms(1,2) have sh: "shape (broaden_poly t) = [nw]" "3 \<le> m" "p = 2 \<or> p = 3"
    "0 < sqrtAWR t"
    by (auto simp: validated_def)
  have fo: "fit_order t = Inr (int m - 1)"
    using assms(2) by (simp add: fit_order_def shape_at_def)
  have b: "get1 (broaden_poly t) w = Inr (elems (broaden_poly t) ! nat w)"
    using sh(1) assms(5,6) by (simp add: get1_in_range)
  let ?broaden = "sqrtkT \<noteq> 0 \<and> elems (broaden_poly t) ! nat w"
  have c: "(if sqrtkT \<noteq> 0 then get1 (broaden_poly t) w else Inr False) = Inr ?broaden"
    using b by simp
  show ?thesis
  proof (cases ?broaden)
    case True
    then have "0 < sqrtAWR t / sqrtkT" using sh(4) assms(8) by simp
    then have bp: "broaden_wmp_polynomials E (sqrtAWR t / sqrtkT) (int m)
        = Inr (map (broadened_basis E (sqrtAWR t / sqrtkT)) [0..<nat (int m)])"
      using assms(7) sh(2) by (intro broaden_wmp_polynomials_value) simp_all
    have "\<exists>s. for_loop (py_range 0 (int m))
                 (broadened_body t w (map (broadened_basis E (sqrtAWR t / sqrtkT)) [0..<m]))
                 (0, 0, 0) = Inr s"
      by (rule for_loop_returns, rule broadened_body_returns [OF assms(2) sh(3) assms(3,4,5,6)])
        (simp_all add: set_py_range)
    then show ?thesis
      unfolding curvefit_contribution_def c using True bp by (simp add: fo Let_def)
  next
    case False
    have "\<exists>s. for_loop (py_range 0 (int m)) (unbroadened_body t w sqrtE) ((0, 0, 0), invE) = Inr s"
      by (rule for_loop_returns, rule unbroadened_body_returns [OF assms(2) sh(3) assms(3,4,5,6)])
        (simp_all add: set_py_range)
    then show ?thesis
      unfolding curvefit_contribution_def c using False by (auto simp: fo)
  qed
qed

lemma poles_contribution_returns:
  assumes "shape (data t) = [np, nc]" "nc = 3 \<or> nc = 4"
    and "\<forall>i \<in> set (py_range startw endw). 0 \<le> i \<and> i < int np"
  shows "\<exists>s'. poles_contribution t E sqrtE invE sqrtkT startw endw s = Inr s'"
proof (cases "sqrtkT = 0")
  case True
  have "\<exists>s'. for_loop (py_range startw endw) (pole_body_0K t E sqrtE) s = Inr s'"
    by (rule for_loop_returns, rule pole_body_0K_returns [OF assms(1,2)])
      (use assms(3) in auto)
  then show ?thesis using True by (simp add: poles_contribution_def)
next
  case False
  have "\<exists>s'. for_loop (py_range startw endw)
               (pole_body_T t sqrtE invE (sqrtAWR t / sqrtkT)) s = Inr s'"
    by (rule for_loop_returns, rule pole_body_T_returns [OF assms(1,2)])
      (use assms(3) in auto)
  then show ?thesis using False by (simp add: poles_contribution_def Let_def)
qed

subsection \<open>The Faddeeva function on the negative real axis\<close>

lemma np_angle_pos_iff: "0 < np_angle z \<longleftrightarrow> 0 < Im z \<or> (Im z = 0 \<and> Re z < 0)"
proof -
  have b: "- (pi / 2) < arctan (Im z / Re z)" "arctan (Im z / Re z) < pi / 2"
    by (rule arctan_lbound, rule arctan_ubound)
  consider "0 < Re z" | "Re z < 0" "0 \<le> Im z" | "Re z < 0" "Im z < 0" | "Re z = 0"
    by linarith
  then show ?thesis
  proof cases
    case 1
    then show ?thesis
      by (simp add: np_angle_def np_arctan2_def zero_less_divide_iff)
  next
    case 2
    have "0 < arctan (Im z / Re z) + pi" using b(1) pi_gt_zero by linarith
    then show ?thesis using 2 by (auto simp: np_angle_def np_arctan2_def)
  next
    case 3
    have "\<not> 0 < arctan (Im z / Re z) - pi" using b(2) pi_gt_zero by linarith
    then show ?thesis using 3 by (auto simp: np_angle_def np_arctan2_def)
  next
    case 4
    then show ?thesis by (auto simp: np_angle_def np_arctan2_def)
  qed
qed

lemma erf_term_i: "erf_term \<i> n = \<i> * of_real (1 / (fact n * (2 * real n + 1)))"
proof -
  have "\<i> ^ (2 * n + 1) = \<i> * (- 1) ^ n"
    by (simp add: power_mult)
  then have "(- 1) ^ n * \<i> ^ (2 * n + 1) = \<i> * ((- 1) ^ n * (- 1) ^ n)"
    by (simp add: mult_ac)
  also have "\<dots> = \<i>"
    by (simp add: power_mult_distrib [symmetric])
  finally have "erf_term \<i> n = \<i> / of_nat (fact n * (2 * n + 1))"
    by (simp add: erf_term_def)
  also have "of_nat (fact n * (2 * n + 1)) = complex_of_real (fact n * (2 * real n + 1))"
    by (simp add: algebra_simps)
  finally show ?thesis
    by (simp only: of_real_divide of_real_1 times_divide_eq_right mult_1_right)
qed

lemma summable_erf_term_i: "summable (erf_term \<i>)"
proof (rule summable_comparison_test')
  show "summable (\<lambda>n. inverse (fact n) * (1::real) ^ n)" by (rule summable_exp)
next
  fix n :: nat
  have p: "0 < fact n * (2 * real n + 1)"
    by (intro mult_pos_pos) (simp_all add: add_nonneg_pos)
  have "norm (erf_term \<i> n) = \<bar>1 / (fact n * (2 * real n + 1))\<bar>"
    unfolding erf_term_i norm_mult norm_of_real by simp
  also have "\<dots> = 1 / (fact n * (2 * real n + 1))"
    using p by simp
  also have "\<dots> \<le> 1 / fact n"
    by (rule divide_left_mono) (simp_all add: mult_le_cancel_left1)
  finally show "norm (erf_term \<i> n) \<le> inverse (fact n) * 1 ^ n"
    by (simp add: inverse_eq_divide)
qed

lemma Re_erf_i: "Re (erf \<i>) = 0"
proof -
  have "Re (\<Sum>n. erf_term \<i> n) = (\<Sum>n. Re (erf_term \<i> n))"
    by (rule Re_suminf [OF summable_erf_term_i])
  also have "\<dots> = 0"
    by (simp only: erf_term_i Re_i_times Im_complex_of_real minus_zero suminf_zero)
  finally show ?thesis
    by (simp add: erf_def)
qed

lemma Re_wofz_minus_1: "Re (wofz (- 1)) = exp (- 1)"
proof -
  have "wofz (- 1) = of_real (exp (- 1)) * (1 - erf \<i>)"
    by (simp add: wofz_def erfc_def exp_of_real [symmetric])
  then show ?thesis
    by (simp add: Re_erf_i)
qed

subsection \<open>The concrete tables\<close>

lemma from_hdf5_scenario:
  "0 < sp \<Longrightarrow> from_hdf5 fs (Group (scenario_group sp a b c)) = Inr (scenario_table sp a b c)"
  by (simp add: from_hdf5_def open_group_def scenario_group_def scenario_table_def h5_get_def
      set_spacing_def set_sqrtAWR_def set_start_E_def set_end_E_def set_data_def
      set_w_start_def set_w_end_def set_broaden_poly_def set_curvefit_def astype_bool_def
      check_type_Real_def check_type_ndarray_def check_greater_than_def shape_at_def
      fit_order_def)

lemma from_hdf5_example:
  "from_hdf5 fs (Group example_group) = Inr example_table"
  by (simp add: from_hdf5_simps example_group_def example_table_def)

lemma from_hdf5_overrun:
  "from_hdf5 fs (Group overrun_group) = Inr overrun_table"
  by (simp add: from_hdf5_simps overrun_group_def overrun_table_def example_group_def
      example_table_def)

lemma from_hdf5_current_file:
  "from_hdf5 example_fs (Filename ''current.h5'') = Inr example_table"
  by (simp add: from_hdf5_simps example_fs_def current_file_def example_group_def
      example_table_def)

lemma example_table_at_4: "evaluate example_table 4 0 = Inr (73 / 4, 20, 0)"
  by (simp add: eval_simps example_table_def upto.simps complex_eq_iff
      Re_divide Im_divide power2_eq_square sqrt_4)

section \<open>The claims\<close>

subsection \<open>C1: the broadened basis values\<close>

text \<open>
  C1. For every energy \<open>E > 0\<close>, every \<open>dopp > 0\<close> and every term count \<open>n \<ge> 3\<close>,
  \<^verbatim>\<open>_broaden_wmp_polynomials(E, dopp, n)\<close> returns the \<open>n\<close> values of the recurrence
  of the specification, \<open>broadened_basis E dopp 0, \<dots>, broadened_basis E dopp (n - 1)\<close>,
  with \<open>erf(beta)\<close> and \<open>exp(-beta\<^sup>2)\<close> replaced by 1 and 0 when \<open>beta > 6\<close>.
\<close>

theorem broaden_wmp_polynomials_recurrence:
  assumes "0 < E" "0 < dopp" "3 \<le> n"
  shows "broaden_wmp_polynomials E dopp n = Inr (map (broadened_basis E dopp) [0..<nat n])"
  using assms by (rule broaden_wmp_polynomials_value)

text \<open>At \<open>E = 49\<close>, \<open>dopp = 1\<close> (so \<open>beta = 7\<close>) and four terms.\<close>

theorem broaden_wmp_polynomials_recurrence_witness:
  "(0::real) < 49 \<and> (0::real) < 1 \<and> (3::int) \<le> 4
     \<and> broaden_wmp_polynomials 49 1 4 = Inr [1 / 49, 1 / 7, 99 / 98, 101 / 14]"
proof -
  have u: "[0..<4] = [0, Suc 0, 2, 3]"
    by (simp add: upt_rec numeral_eq_Suc)
  have b: "broadened_basis 49 1 0 = 1 / 49" "broadened_basis 49 1 (Suc 0) = 1 / 7"
    "broadened_basis 49 1 2 = 99 / 98"
    by (simp_all add: broadened_basis_0 broadened_basis_1 broadened_basis_2 sqrt_49)
  have b3: "broadened_basis 49 1 3 = 101 / 14"
    using broadened_basis_step [of 1 49 1] by (simp add: numeral_3_eq_3 b(2))
  show ?thesis
    using broaden_wmp_polynomials_recurrence [of 49 1 4] by (simp add: u b b3)
qed

subsection \<open>C2: the branches of the Faddeeva evaluator\<close>

text \<open>
  C2, as amended. \<^verbatim>\<open>_faddeeva(z)\<close> returns \<open>wofz(z)\<close> when \<open>Im z > 0\<close>, and also when
  \<open>Im z = 0\<close> and \<open>Re z < 0\<close> (where \<^verbatim>\<open>np.angle(z)\<close> is \<open>\<pi>\<close>); for every other \<open>z\<close>
  it returns \<open>- conj (wofz (conj z))\<close>. The predicates \<open>Im z > 0\<close> and
  \<open>angle z > 0\<close> agree everywhere but on the negative real axis.
\<close>

theorem faddeeva_branches:
  "faddeeva z = (if 0 < Im z \<or> (Im z = 0 \<and> Re z < 0) then wofz z else - cnj (wofz (cnj z)))"
  by (simp add: faddeeva_def np_angle_pos_iff)

text \<open>One argument of each branch: \<open>i\<close> and \<open>1\<close>.\<close>

theorem faddeeva_branches_witness:
  "faddeeva \<i> = wofz \<i> \<and> faddeeva 1 = - cnj (wofz (cnj 1))"
  using faddeeva_branches [of \<i>] faddeeva_branches [of 1] by simp

text \<open>
  C2 as stated fails at \<open>z = -1\<close>: the imaginary part is not positive, the angle is, and
  the value returned is \<open>wofz(-1)\<close>, whose real part \<open>exp(-1)\<close> is not that of
  \<open>- conj (wofz (conj (-1)))\<close>.
\<close>

theorem faddeeva_negative_real_axis:
  "Im (- 1 :: complex) \<le> 0 \<and> 0 < np_angle (- 1)
     \<and> faddeeva (- 1) = wofz (- 1)
     \<and> faddeeva (- 1) \<noteq> - cnj (wofz (cnj (- 1)))"
proof -
  have a: "0 < np_angle (- 1)"
    by (simp add: np_angle_pos_iff)
  then have f: "faddeeva (- 1) = wofz (- 1)"
    by (simp add: faddeeva_def)
  have "Re (- cnj (wofz (cnj (- 1)))) = - exp (- 1)"
    by (simp add: Re_wofz_minus_1)
  moreover have "Re (faddeeva (- 1)) = exp (- 1)"
    by (simp add: f Re_wofz_minus_1)
  moreover have "exp (- 1 :: real) \<noteq> - exp (- 1)"
    using exp_gt_zero [of "- 1 :: real"] by linarith
  ultimately have "faddeeva (- 1) \<noteq> - cnj (wofz (cnj (- 1)))"
    by metis
  with a f show ?thesis by simp
qed

subsection \<open>C3: energies outside the table's range\<close>

text \<open>
  C3. For every table, every temperature \<open>T\<close> and every energy \<open>E\<close> with
  \<open>E < start_E\<close> or \<open>E > end_E\<close>, \<^verbatim>\<open>_evaluate(E, T)\<close> returns \<open>(0, 0, 0)\<close>; nothing
  is asked of the table beyond its two bounds, so neither the window arrays, the
  curvefit nor the poles are read.
\<close>

theorem evaluate_out_of_range:
  "E < start_E self \<or> E > end_E self \<Longrightarrow> evaluate self E T = Inr (0, 0, 0)"
  by (auto simp: evaluate_def)

theorem evaluate_out_of_range_witness:
  "(1 / 2 < start_E (scenario_table 9 1 2 3) \<or> 1 / 2 > end_E (scenario_table 9 1 2 3))
     \<and> evaluate (scenario_table 9 1 2 3) (1 / 2) 300 = Inr (0, 0, 0)"
  using evaluate_out_of_range [of "1 / 2" "scenario_table 9 1 2 3" 300]
  by (simp add: scenario_table_def)

subsection \<open>C4: the window index\<close>




subsection \<open>C5: when evaluation returns\<close>

text \<open>
  C5, as amended. For every table returned by \<^verbatim>\<open>from_hdf5\<close>, every temperature
  \<open>T \<ge> 0\<close> and every energy \<open>E\<close> with \<open>start_E \<le> E \<le> end_E\<close> and \<open>E > 0\<close>:
  if the window index is in bounds (the reads \<^verbatim>\<open>w_start[i_window]\<close> and
  \<^verbatim>\<open>w_end[i_window]\<close> succeed), every pole index of
  \<^verbatim>\<open>range(w_start[i_window] - 1, w_end[i_window])\<close> lies in \<open>[0, number of poles)\<close>, and
  the curvefit has three channels when the table is fissionable, then
  \<^verbatim>\<open>_evaluate(E, T)\<close> returns three cross sections and raises nothing.
\<close>

theorem evaluate_returns:
  assumes "from_hdf5 fs src = Inr t" "0 \<le> T"
    and "start_E t \<le> E" "E \<le> end_E t" "0 < E"
    and "locate_window t (sqrt E) = Inr i_window"
    and "get1 (w_start t) i_window = Inr ws" "get1 (w_end t) i_window = Inr we"
    and "shape_at (data t) 0 = Inr np"
    and "\<forall>i_pole \<in> set (py_range (ws - 1) we). 0 \<le> i_pole \<and> i_pole < int np"
    and "fissionable t = Inr True \<longrightarrow> shape_at (curvefit t) 2 = Inr 3"
  shows "\<exists>sig_t sig_a sig_f. evaluate t E T = Inr (sig_t, sig_a, sig_f)"
proof -
  have v: "validated t" by (rule from_hdf5_validated [OF assms(1)])
  from v obtain np' nc nw m p where sh: "shape (data t) = [np', nc]" "nc = 3 \<or> nc = 4"
    "shape (w_start t) = [nw]" "shape (curvefit t) = [nw, m, p]"
    unfolding validated_def by blast
  have np: "np' = np" using assms(9) sh(1) by (simp add: shape_at_def)
  have ch: "nc = 4 \<longrightarrow> p = 3"
    using assms(11) sh(1,4) by (simp add: fissionable_def shape_at_def)
  have l: "i_window = \<lfloor>(sqrt E - sqrt (start_E t)) / spacing t\<rfloor>" "0 \<le> i_window"
    using locate_window_in_range [OF v assms(3)] assms(6) by simp_all
  have u: "i_window < int nw"
    using assms(7) sh(3) l(2) by (auto simp: get1_def np_index_def split: if_splits)
  have k: "0 \<le> sqrt (K_BOLTZMANN * T)"
    using assms(2) K_BOLTZMANN_pos by simp
  have kT: "math_sqrt (K_BOLTZMANN * T) = Inr (sqrt (K_BOLTZMANN * T))"
    using assms(2) K_BOLTZMANN_pos by (simp add: math_sqrt_def mult_less_0_iff)
  obtain s where c: "curvefit_contribution t E (sqrt E) (1 / E) (sqrt (K_BOLTZMANN * T)) i_window
      = Inr s"
    using curvefit_contribution_returns [OF v sh(4,1) ch l(2) u assms(5) k] by blast
  obtain s' where p: "poles_contribution t E (sqrt E) (1 / E) (sqrt (K_BOLTZMANN * T))
      (ws - 1) we s = Inr s'"
    using poles_contribution_returns [OF sh(1,2)] assms(10) np by blast
  have "evaluate t E T = Inr s'"
    using assms(3-8) kT c p
    by (simp add: evaluate_def math_sqrt_def py_div_def Let_def)
  then show ?thesis by (metis prod.exhaust)
qed

text \<open>The example table at \<open>E = 4\<close> and 300 K: the broadened curvefit is not used in
  the second window, the pole is evaluated with the Faddeeva form.\<close>

theorem evaluate_returns_witness:
  "from_hdf5 Map.empty (Group example_group) = Inr example_table
     \<and> (0::real) \<le> 300 \<and> start_E example_table \<le> 4 \<and> 4 \<le> end_E example_table
     \<and> locate_window example_table (sqrt 4) = Inr 1
     \<and> get1 (w_start example_table) 1 = Inr 2 \<and> get1 (w_end example_table) 1 = Inr 2
     \<and> py_range (2 - 1) 2 = [1] \<and> shape_at (data example_table) 0 = Inr 2
     \<and> fissionable example_table = Inr False
     \<and> (\<exists>sig_t sig_a sig_f. evaluate example_table 4 300 = Inr (sig_t, sig_a, sig_f))"
proof -
  have h: "from_hdf5 Map.empty (Group example_group) = Inr example_table"
    "locate_window example_table (sqrt 4) = Inr 1"
    "get1 (w_start example_table) 1 = Inr 2" "get1 (w_end example_table) 1 = Inr 2"
    "shape_at (data example_table) 0 = Inr 2" "fissionable example_table = Inr False"
    "start_E example_table \<le> 4" "4 \<le> end_E example_table"
    "py_range (2 - 1) 2 = [1]"
    by (simp_all add: from_hdf5_example example_table_def locate_window_def math_sqrt_def
        int_floor_div_def sqrt_4 get1_def np_index_def shape_at_def fissionable_def
        py_range_def upto.simps)
  have "\<exists>sig_t sig_a sig_f. evaluate example_table 4 300 = Inr (sig_t, sig_a, sig_f)"
    by (rule evaluate_returns [OF h(1) _ h(7,8) _ h(2,3,4,5)])
      (use h(9) in \<open>simp_all add: h(6)\<close>)
  then show ?thesis using h by simp
qed

text \<open>
  C5 as stated fails on the example table, which \<^verbatim>\<open>from_hdf5\<close> returns: at
  \<open>E = 0 = start_E\<close> the division \<^verbatim>\<open>1.0 / E\<close> raises ZeroDivisionError, and at
  \<open>E = 16 = end_E\<close> the window index is out of bounds.
\<close>

theorem evaluate_raises:
  "from_hdf5 Map.empty (Group example_group) = Inr example_table
     \<and> start_E example_table = 0 \<and> (0::real) \<le> 300
     \<and> evaluate example_table 0 300 = Inl ZeroDivisionError
     \<and> end_E example_table = 16
     \<and> evaluate example_table 16 0 = Inl IndexError"
proof -
  have "evaluate example_table 0 300 = Inl ZeroDivisionError"
    by (simp add: eval_simps example_table_def K_BOLTZMANN_def)
  moreover have "evaluate example_table 16 0 = Inl IndexError"
    by (simp add: eval_simps example_table_def sqrt_16)
  ultimately show ?thesis
    by (simp add: from_hdf5_example) (simp add: example_table_def)
qed

subsection \<open>C6: tables without fission data\<close>

text \<open>
  C6. For every table whose pole array does not have four columns, every energy and
  every temperature, the fission component of what \<^verbatim>\<open>_evaluate\<close> returns is exactly 0
  (when \<^verbatim>\<open>_evaluate\<close> raises there is no component to speak of).
\<close>

theorem evaluate_non_fissionable:
  assumes "fissionable self = Inr False"
    and "evaluate self E T = Inr (sig_t, sig_a, sig_f)"
  shows "sig_f = 0"
proof (cases "E < start_E self \<or> E > end_E self")
  case True
  then have "evaluate self E T = Inr (0, 0, 0)"
    by (auto simp: evaluate_def)
  with assms(2) show ?thesis by simp
next
  case False
  with assms(2) obtain sqrtkT sqrtE invE w startw endw s where
    c: "curvefit_contribution self E sqrtE invE sqrtkT w = Inr s" and
    p: "poles_contribution self E sqrtE invE sqrtkT startw endw s = Inr (sig_t, sig_a, sig_f)"
    by (auto simp: evaluate_def and_then_eq_Inr Let_def)
  have "snd (snd s) = 0"
    by (rule curvefit_contribution_fission [OF assms(1) c])
  from poles_contribution_fission [OF assms(1) p this] show ?thesis by simp
qed

text \<open>The example table at \<open>E = 4\<close> and 0 K, where the second window's pole contributes.\<close>

theorem evaluate_non_fissionable_witness:
  "fissionable example_table = Inr False
     \<and> evaluate example_table 4 0 = Inr (73 / 4, 20, 0)"
proof -
  have f: "fissionable example_table = Inr False"
    by (simp add: fissionable_def shape_at_def example_table_def)
  obtain sig_f where e: "evaluate example_table 4 0 = Inr (73 / 4, 20, sig_f)"
    using example_table_at_4 by blast
  have "sig_f = 0"
    by (rule evaluate_non_fissionable [OF f e])
  with f e show ?thesis by simp
qed

subsection \<open>C7: the baseline-only scenario\<close>

text \<open>
  C7, as amended. For a table with \<open>start_E = 1\<close>, \<open>end_E = 100\<close>, a spacing greater
  than 4 (9 makes the single window span the whole range), a single window whose pole
  range is empty, and a three-term curvefit with the total coefficients \<open>[a, b, c]\<close>,
  \<^verbatim>\<open>_evaluate(25.0, 0.0)\<close> returns the total cross section \<open>a / 25 + b / 5 + c\<close>, in
  exact arithmetic.
\<close>

theorem evaluate_baseline_only:
  assumes "start_E t = 1" "end_E t = 100" "4 < spacing t"
    and "shape (w_start t) = [1]" "shape (w_end t) = [1]"
    and "get1 (w_start t) 0 = Inr ws" "get1 (w_end t) 0 = Inr we" "we \<le> ws - 1"
    and "shape (curvefit t) = [1, 3, nch]" "nch = 2 \<or> nch = 3" "shape (data t) = [np, nch + 1]"
    and "get3 (curvefit t) 0 0 FIT_T = Inr a" "get3 (curvefit t) 0 1 FIT_T = Inr b"
      "get3 (curvefit t) 0 2 FIT_T = Inr c"
  shows "\<exists>sig_a sig_f. evaluate t 25 0 = Inr (a / 25 + b / 5 + c, sig_a, sig_f)"
proof -
  have "0 \<le> 4 / spacing t" "4 / spacing t < 1"
    using assms(3) by simp_all
  then have w: "\<lfloor>4 / spacing t\<rfloor> = 0" by linarith
  have l: "locate_window t 5 = Inr 0"
    using assms(1,3) w by (simp add: locate_window_def math_sqrt_def int_floor_div_def)
  have r: "py_range (ws - 1) we = []"
    using assms(8) by (simp add: py_range_def)
  have p: "poles_contribution t 25 5 (1 / 25) 0 (ws - 1) we s = Inr s" for s
    by (simp add: poles_contribution_def r)
  have fo: "fit_order t = Inr 2"
    using assms(9) by (simp add: fit_order_def shape_at_def)
  have fis: "fissionable t = Inr (nch = 3)"
    using assms(11) by (simp add: fissionable_def shape_at_def)
  have ga: "\<exists>v. get3 (curvefit t) 0 i FIT_A = Inr v" if "i \<in> {0, 1, 2}" for i
    using that assms(9,10) by (auto simp: get3_def np_index_def FIT_A_def)
  have gf: "\<exists>v. get3 (curvefit t) 0 i FIT_F = Inr v" if "i \<in> {0, 1, 2}" "nch = 3" for i
    using that assms(9) by (auto simp: get3_def np_index_def FIT_F_def)
  obtain a0 a1 a2 where a: "get3 (curvefit t) 0 0 FIT_A = Inr a0"
    "get3 (curvefit t) 0 1 FIT_A = Inr a1" "get3 (curvefit t) 0 2 FIT_A = Inr a2"
    using ga [of 0] ga [of 1] ga [of 2] by auto
  have "\<exists>sig_a sig_f. curvefit_contribution t 25 5 (1 / 25) 0 0
          = Inr (a / 25 + b / 5 + c, sig_a, sig_f)"
  proof (cases "nch = 3")
    case True
    obtain f0 f1 f2 where f: "get3 (curvefit t) 0 0 FIT_F = Inr f0"
      "get3 (curvefit t) 0 1 FIT_F = Inr f1" "get3 (curvefit t) 0 2 FIT_F = Inr f2"
      using gf [of 0] gf [of 1] gf [of 2] True by auto
    show ?thesis
      using True
      by (simp add: curvefit_contribution_def fo py_range_def upto.simps unbroadened_body_def
          assms(12-14) a f fis Let_def)
  next
    case False
    then show ?thesis
      by (simp add: curvefit_contribution_def fo py_range_def upto.simps unbroadened_body_def
          assms(12-14) a fis Let_def)
  qed
  then obtain sig_a sig_f where
    c: "curvefit_contribution t 25 5 (1 / 25) 0 0 = Inr (a / 25 + b / 5 + c, sig_a, sig_f)"
    by blast
  have "evaluate t 25 0 = Inr (a / 25 + b / 5 + c, sig_a, sig_f)"
    using assms(1,2)
    by (simp add: evaluate_def math_sqrt_def py_div_def sqrt_25 l assms(6,7) c p Let_def)
  then show ?thesis by blast
qed

theorem evaluate_baseline_only_witness:
  "4 < spacing (scenario_table 9 1 2 3)
     \<and> get1 (w_start (scenario_table 9 1 2 3)) 0 = Inr 1
     \<and> get1 (w_end (scenario_table 9 1 2 3)) 0 = Inr 0
     \<and> get3 (curvefit (scenario_table 9 1 2 3)) 0 0 FIT_T = Inr 1
     \<and> get3 (curvefit (scenario_table 9 1 2 3)) 0 1 FIT_T = Inr 2
     \<and> get3 (curvefit (scenario_table 9 1 2 3)) 0 2 FIT_T = Inr 3
     \<and> (\<exists>sig_a sig_f. evaluate (scenario_table 9 1 2 3) 25 0
            = Inr (1 / 25 + 2 / 5 + 3, sig_a, sig_f))"
proof -
  let ?t = "scenario_table 9 1 2 3"
  have h: "start_E ?t = 1" "end_E ?t = 100" "4 < spacing ?t"
    "shape (w_start ?t) = [1]" "shape (w_end ?t) = [1]"
    "get1 (w_start ?t) 0 = Inr 1" "get1 (w_end ?t) 0 = Inr 0" "(0::int) \<le> 1 - 1"
    "shape (curvefit ?t) = [1, 3, 2]" "(2::nat) = 2 \<or> (2::nat) = 3"
    "shape (data ?t) = [0, 2 + 1]"
    "get3 (curvefit ?t) 0 0 FIT_T = Inr 1" "get3 (curvefit ?t) 0 1 FIT_T = Inr 2"
    "get3 (curvefit ?t) 0 2 FIT_T = Inr 3"
    by (simp_all add: scenario_table_def get1_def get3_def np_index_def FIT_T_def)
  from evaluate_baseline_only [OF h]
  have "\<exists>sig_a sig_f. evaluate ?t 25 0 = Inr (1 / 25 + 2 / 5 + 3, sig_a, sig_f)" .
  then show ?thesis using h(3,6,7,12,13,14) by simp
qed

text \<open>
  C7 as stated fails: with spacing 1 the table is returned by \<^verbatim>\<open>from_hdf5\<close>, the window
  index at \<open>E = 25\<close> is 4, and the table has one window.
\<close>

theorem evaluate_scenario_spacing_1:
  "from_hdf5 Map.empty (Group (scenario_group 1 1 2 3)) = Inr (scenario_table 1 1 2 3)
     \<and> evaluate (scenario_table 1 1 2 3) 25 0 = Inl IndexError"
proof -
  have "evaluate (scenario_table 1 1 2 3) 25 0 = Inl IndexError"
    by (simp add: eval_simps scenario_table_def sqrt_25)
  then show ?thesis by (simp add: from_hdf5_scenario)
qed

subsection \<open>C8: the pole ranges at construction\<close>

text \<open>
  C8, as amended. Of \<^verbatim>\<open>w_start\<close> and \<^verbatim>\<open>w_end\<close>, \<^verbatim>\<open>from_hdf5\<close> checks that they are
  one-dimensional integer arrays of equal length; it does not read their values. If it
  returns a table for a group, it returns a table for the same group with any other
  integers stored in the two arrays, so no pole range is validated.
\<close>

theorem from_hdf5_ignores_window_values:
  assumes "from_hdf5 fs (Group g) = Inr t"
  shows "from_hdf5 fs (Group (g(''w_start'' \<mapsto> H5Array (shape (w_start t)) (Ints xs),
                               ''w_end'' \<mapsto> H5Array (shape (w_end t)) (Ints ys))))
         = Inr (t\<lparr>w_start := \<lparr>shape = shape (w_start t), elems = xs\<rparr>,
                  w_end := \<lparr>shape = shape (w_end t), elems = ys\<rparr>\<rparr>)"
proof -
  from from_hdf5_Group_fields [OF assms] obtain v1 v2 v3 v4 v5 v6 v7 v8 v9 where
    g: "g ''spacing'' = Some v1" "g ''sqrtAWR'' = Some v2" "g ''start_E'' = Some v3"
      "g ''end_E'' = Some v4" "g ''data'' = Some v5" "g ''w_start'' = Some v6"
      "g ''w_end'' = Some v7" "g ''broaden_poly'' = Some v8" "g ''curvefit'' = Some v9" and
    s: "set_spacing v1 = Inr (spacing t)" "set_sqrtAWR v2 = Inr (sqrtAWR t)"
      "set_start_E v3 = Inr (start_E t)" "set_end_E v4 = Inr (end_E t)"
      "set_data v5 = Inr (data t)" "set_broaden_poly (astype_bool v8) = Inr (broaden_poly t)"
      "set_curvefit v9 = Inr (curvefit t)" and
    w: "set_w_start v6 = Inr (w_start t)" "set_w_end v7 = Inr (w_end t)"
    by blast
  have "validated t" by (rule from_hdf5_validated [OF assms])
  then obtain nw m p where sh: "shape (w_start t) = [nw]" "shape (w_end t) = [nw]"
    "shape (broaden_poly t) = [nw]" "shape (curvefit t) = [nw, m, p]" "3 \<le> m"
    unfolding validated_def by blast
  have sws: "set_w_start (H5Array [nw] (Ints xs)) = Inr \<lparr>shape = [nw], elems = xs\<rparr>"
    by (simp add: set_w_start_def check_type_ndarray_def)
  have swe: "set_w_end (H5Array [nw] (Ints ys)) = Inr \<lparr>shape = [nw], elems = ys\<rparr>"
    by (simp add: set_w_end_def check_type_ndarray_def)
  have eq: "\<lparr>spacing = spacing t, sqrtAWR = sqrtAWR t, start_E = start_E t, end_E = end_E t,
             data = data t, w_start = \<lparr>shape = [nw], elems = xs\<rparr>,
             w_end = \<lparr>shape = [nw], elems = ys\<rparr>, broaden_poly = broaden_poly t,
             curvefit = curvefit t\<rparr>
            = t\<lparr>w_start := \<lparr>shape = [nw], elems = xs\<rparr>,
                w_end := \<lparr>shape = [nw], elems = ys\<rparr>\<rparr>"
    by (cases t) simp
  show ?thesis
    using sh(5)
    by (simp add: from_hdf5_def open_group_def h5_get_def g s sws swe sh(1-4)
        shape_at_def fit_order_def Let_def eq)
qed

theorem from_hdf5_ignores_window_values_witness:
  "from_hdf5 Map.empty (Group example_group) = Inr example_table
     \<and> from_hdf5 Map.empty
         (Group (example_group(''w_start'' \<mapsto> H5Array [2] (Ints [0, 9]),
                               ''w_end'' \<mapsto> H5Array [2] (Ints [5, 3]))))
       = Inr (example_table\<lparr>w_start := \<lparr>shape = [2], elems = [0, 9]\<rparr>,
                            w_end := \<lparr>shape = [2], elems = [5, 3]\<rparr>\<rparr>)"
proof -
  have h: "from_hdf5 Map.empty (Group example_group) = Inr example_table"
    by (rule from_hdf5_example)
  have s: "shape (w_start example_table) = [2]" "shape (w_end example_table) = [2]"
    by (simp_all add: example_table_def)
  show ?thesis
    using from_hdf5_ignores_window_values [OF h, of "[0, 9]" "[5, 3]"] h
    by (simp add: s)
qed

text \<open>
  C8 as stated fails: the group whose second window claims the poles \<open>[1, 7)\<close> of a
  two-pole table is accepted, and evaluation in that window then raises IndexError.
\<close>

theorem from_hdf5_accepts_overrun:
  "from_hdf5 Map.empty (Group overrun_group) = Inr overrun_table
     \<and> get1 (w_start overrun_table) 1 = Inr 2
     \<and> get1 (w_end overrun_table) 1 = Inr 7
     \<and> shape_at (data overrun_table) 0 = Inr 2
     \<and> evaluate overrun_table 4 0 = Inl IndexError"
proof -
  have "evaluate overrun_table 4 0 = Inl IndexError"
    by (simp add: eval_simps overrun_table_def example_table_def upto.simps sqrt_4)
  then show ?thesis
    by (simp add: from_hdf5_overrun)
      (simp add: overrun_table_def example_table_def get1_def np_index_def shape_at_def)
qed

subsection \<open>C9: the version tag\<close>

text \<open>
  C9, as amended. For every input given as a filename whose stored version tag differs
  from \<^verbatim>\<open>WMP_VERSION\<close>, \<^verbatim>\<open>from_hdf5\<close> raises ValueError and returns no table. For an
  input given as an open group no version tag is read: the result does not depend on
  any file.
\<close>

theorem from_hdf5_version_mismatch:
  assumes "fs name = Some f" "version f = Some v" "read_version v = Inr tag"
    and "tag \<noteq> WMP_VERSION"
  shows "from_hdf5 fs (Filename name) = Inl ValueError
         \<and> from_hdf5 fs (Group g) = from_hdf5 Map.empty (Group g)"
  using assms
  by (simp add: from_hdf5_def open_group_def h5py_File_def h5_item_def)

theorem from_hdf5_version_mismatch_witness:
  "example_fs ''old.h5'' = Some old_file
     \<and> version old_file = Some (VBytesArray [''v0.9''])
     \<and> read_version (VBytesArray [''v0.9'']) = Inr ''v0.9''
     \<and> ''v0.9'' \<noteq> WMP_VERSION
     \<and> from_hdf5 example_fs (Filename ''old.h5'') = Inl ValueError"
proof -
  have h: "example_fs ''old.h5'' = Some old_file"
    "version old_file = Some (VBytesArray [''v0.9''])"
    "read_version (VBytesArray [''v0.9'']) = Inr ''v0.9''"
    "''v0.9'' \<noteq> WMP_VERSION"
    by (simp_all add: example_fs_def old_file_def read_version_def WMP_VERSION_def)
  from from_hdf5_version_mismatch
    [of example_fs "''old.h5''" old_file "VBytesArray [''v0.9'']" "''v0.9''", OF h]
  have "from_hdf5 example_fs (Filename ''old.h5'') = Inl ValueError" by simp
  then show ?thesis using h by simp
qed

text \<open>
  C9 as stated fails for an open group: the nuclide group of the file stamped
  \<^verbatim>\<open>v0.9\<close> is loaded.
\<close>

theorem from_hdf5_group_of_old_file:
  "example_fs ''old.h5'' = Some old_file
     \<and> version old_file = Some (VBytesArray [''v0.9''])
     \<and> read_version (VBytesArray [''v0.9'']) = Inr ''v0.9''
     \<and> ''v0.9'' \<noteq> WMP_VERSION
     \<and> nuclide old_file = Some example_group
     \<and> from_hdf5 example_fs (Group example_group) = Inr example_table"
  by (simp add: from_hdf5_example)
    (simp add: example_fs_def old_file_def read_version_def WMP_VERSION_def)

subsection \<open>C10: negative temperatures\<close>

text \<open>
  C10. For every table and every energy \<open>E\<close> with \<open>start_E \<le> E \<le> end_E\<close>,
  \<^verbatim>\<open>_evaluate(E, T)\<close> first takes \<^verbatim>\<open>sqrt(K_BOLTZMANN * T)\<close>; for every \<open>T < 0\<close> the
  call raises the domain error of \<^verbatim>\<open>math.sqrt\<close> (ValueError) and returns no cross
  sections.
\<close>

theorem evaluate_negative_temperature:
  "start_E self \<le> E \<Longrightarrow> E \<le> end_E self \<Longrightarrow> T < 0 \<Longrightarrow> evaluate self E T = Inl ValueError"
  using K_BOLTZMANN_pos
  by (simp add: evaluate_def math_sqrt_def mult_less_0_iff)

theorem evaluate_negative_temperature_witness:
  "start_E (scenario_table 9 1 2 3) \<le> 25 \<and> 25 \<le> end_E (scenario_table 9 1 2 3)
     \<and> (- 1 :: real) < 0
     \<and> evaluate (scenario_table 9 1 2 3) 25 (- 1) = Inl ValueError"
  using evaluate_negative_temperature [of "scenario_table 9 1 2 3" 25 "- 1"]
  by (simp add: scenario_table_def)

end
